theory Spec2Isabelle
  imports Main "HOL-Library.Sublist"
begin

section \<open>JavaScript values, as far as the generator observes them\<close>

text \<open>
  The generator reads option fields and action parameters of static type \<open>unknown\<close>.
  It observes such a value in four ways only: \<open>typeof\<close>, strict equality with a
  string literal, truthiness, and conversion to a string inside a template literal.
  \<open>JOther s t\<close> stands for any value that is neither undefined, null, a boolean nor a
  string (a number, an array, an object): \<open>s\<close> is its string conversion and \<open>t\<close>
  its truthiness.

  A string is a list of code units; the model covers the code units below 256.
\<close>

datatype jsval = JUndefined | JNull | JBool bool | JStr string | JOther string bool

text \<open>\<open>${v}\<close> inside a template literal.\<close>

fun toStr :: "jsval \<Rightarrow> string" where
  "toStr JUndefined = ''undefined''"
| "toStr JNull = ''null''"
| "toStr (JBool b) = (if b then ''true'' else ''false'')"
| "toStr (JStr s) = s"
| "toStr (JOther s t) = s"

text \<open>The value as a condition (\<open>if (v)\<close>, \<open>v ? a : b\<close>, \<open>v && w\<close>, \<open>!v\<close>).\<close>

fun truthy :: "jsval \<Rightarrow> bool" where
  "truthy JUndefined = False"
| "truthy JNull = False"
| "truthy (JBool b) = b"
| "truthy (JStr s) = (s \<noteq> [])"
| "truthy (JOther s t) = t"

text \<open>
  An object is a map from property names to values. Reading a property that the object
  does not have gives undefined; a property can also be present with the value undefined.
\<close>

type_synonym jsobj = "string \<rightharpoonup> jsval"

definition get :: "jsobj \<Rightarrow> string \<Rightarrow> jsval" where
  "get obj k = (case obj k of None \<Rightarrow> JUndefined | Some v \<Rightarrow> v)"

text \<open>
  Exceptions: \<open>Error msg\<close> is \<open>throw new Error(msg)\<close>; \<open>TypeError\<close> is the runtime's
  error for a method call on a value without that method and for a path segment that is
  not a string; \<open>RangeError\<close> is \<open>Date.prototype.toISOString\<close> on an invalid date.
\<close>

datatype error = Error string | TypeError | RangeError

text \<open>The single quote, for the places where a text ends with one.\<close>

abbreviation sq :: string where
  "sq \<equiv> [CHR 0x27]"

section \<open>Library functions the generator calls\<close>

subsection \<open>\<open>Array.prototype.join\<close> and string methods\<close>

fun join :: "string \<Rightarrow> string list \<Rightarrow> string" where
  "join sep [] = []"
| "join sep [x] = x"
| "join sep (x # y # ys) = x @ sep @ join sep (y # ys)"

definition toLowerCase_char :: "char \<Rightarrow> char" where
  "toLowerCase_char c =
     (let n = (of_char c :: nat)
      in if (65 \<le> n \<and> n \<le> 90) \<or> (192 \<le> n \<and> n \<le> 222 \<and> n \<noteq> 215)
         then char_of (n + 32) else c)"

definition toLowerCase :: "string \<Rightarrow> string" where
  "toLowerCase s = map toLowerCase_char s"

text \<open>The class \<open>\s\<close> of a regular expression, on code units below 256.\<close>

definition is_space :: "char \<Rightarrow> bool" where
  "is_space c = ((of_char c :: nat) \<in> {9, 10, 11, 12, 13, 32, 160})"

subsection \<open>\<open>path.resolve\<close>\<close>

text \<open>
  The resolved path depends on the platform and on the working directory of the process,
  so it stays symbolic: \<open>PathResolve segs\<close> is the path that \<open>path.resolve\<close> computes
  from the segments \<open>segs\<close>. Zero-length segments are ignored by \<open>path.resolve\<close>. It
  reads its segments from the last one back to the first absolute one and raises a
  \<open>TypeError\<close> on one that is not a string; in the calls of the generator only the
  first segment can be absolute, so every segment is read.
\<close>

datatype fspath = PathResolve "string list"

fun segments :: "jsval list \<Rightarrow> string list option" where
  "segments [] = Some []"
| "segments (JStr s # vs) = map_option (\<lambda>ss. if s = [] then ss else s # ss) (segments vs)"
| "segments (v # vs) = None"

definition path_resolve :: "jsval list \<Rightarrow> error + fspath" where
  "path_resolve vs =
     (case segments vs of None \<Rightarrow> Inl TypeError | Some ss \<Rightarrow> Inr (PathResolve ss))"

subsection \<open>\<open>new Date(t).toISOString().split('T')[0]\<close>\<close>

text \<open>
  \<open>t\<close> is a time value in milliseconds since the epoch. The date is valid when
  \<open>|t| \<le> 8.64e15\<close>; \<open>toISOString\<close> raises a \<open>RangeError\<close> otherwise. The year is
  printed with four digits from 0 to 9999 and with a sign and six digits outside.
\<close>

definition digit :: "nat \<Rightarrow> char" where
  "digit n = ''0123456789'' ! (n mod 10)"

fun pad :: "nat \<Rightarrow> nat \<Rightarrow> string" where
  "pad 0 n = []"
| "pad (Suc k) n = pad k (n div 10) @ [digit n]"

definition civil_from_days :: "int \<Rightarrow> int \<times> nat \<times> nat" where
  "civil_from_days z0 =
     (let z = z0 + 719468;
          era = z div 146097;
          doe = z - era * 146097;
          yoe = (doe - doe div 1460 + doe div 36524 - doe div 146096) div 365;
          doy = doe - (365 * yoe + yoe div 4 - yoe div 100);
          mp = (5 * doy + 2) div 153;
          d = doy - (153 * mp + 2) div 5 + 1;
          m = (if mp < 10 then mp + 3 else mp - 9);
          y = yoe + era * 400 + (if m \<le> 2 then 1 else 0)
      in (y, nat m, nat d))"

definition year_text :: "int \<Rightarrow> string" where
  "year_text y =
     (if 0 \<le> y \<and> y \<le> 9999 then pad 4 (nat y)
      else if y < 0 then ''-'' @ pad 6 (nat (- y))
      else ''+'' @ pad 6 (nat y))"

definition isoDate :: "int option \<Rightarrow> error + string" where
  "isoDate t =
     (case t of
        None \<Rightarrow> Inl RangeError
      | Some ms \<Rightarrow>
          if \<bar>ms\<bar> > 8640000000000000 then Inl RangeError
          else (case civil_from_days (ms div 86400000) of
                  (y, m, d) \<Rightarrow> Inr (year_text y @ ''-'' @ pad 2 m @ ''-'' @ pad 2 d)))"

section \<open>Data model\<close>

text \<open>
  An action has a tool name and an object of parameters. A session has an id, a start
  time and its actions (\<open>None\<close> when the field is not an array). The start time is a
  number of milliseconds, an integer as \<open>Date.now()\<close> gives it; \<open>None\<close> is the
  undefined start time and \<open>NaN\<close>, of which \<open>new Date\<close> makes an invalid date. Start
  times of other types (a string, null, a boolean), which \<open>new Date\<close> converts, are not
  in the model. The session handed to \<open>generateTest\<close> is an \<open>option\<close>: \<open>None\<close> is
  null or undefined.
\<close>

record action =
  toolName :: string
  parameters :: jsobj

record session =
  session_id :: jsval
  startTime :: "int option"
  actions :: "action list option"

record PlaywrightTestCase =
  name :: string
  steps :: "string list"
  tc_imports :: "string list"

record gen_file =
  path :: fspath
  content :: string

record CodegenResult =
  testCode :: string
  filePath :: fspath
  sessionId :: jsval
  files :: "gen_file list option"

text \<open>The generator object: its one field is the effective options.\<close>

record PlaywrightGenerator =
  options :: jsobj

section \<open>The generator\<close>

definition DEFAULT_OPTIONS :: jsobj where
  "DEFAULT_OPTIONS =
     [''outputPath'' \<mapsto> JStr ''tests'',
      ''testNamePrefix'' \<mapsto> JStr ''MCP'',
      ''includeComments'' \<mapsto> JBool True,
      ''language'' \<mapsto> JStr ''typescript'',
      ''template'' \<mapsto> JStr ''pom'']"

fun is_string :: "jsval \<Rightarrow> bool" where
  "is_string (JStr s) = True"
| "is_string v = False"

fun is_boolean :: "jsval \<Rightarrow> bool" where
  "is_boolean (JBool b) = True"
| "is_boolean v = False"

definition validateOptions :: "jsobj \<Rightarrow> error + unit" where
  "validateOptions opts =
     (if truthy (get opts ''outputPath'') \<and> \<not> is_string (get opts ''outputPath'')
      then Inl (Error ''outputPath must be a string'')
      else if truthy (get opts ''testNamePrefix'') \<and> \<not> is_string (get opts ''testNamePrefix'')
      then Inl (Error ''testNamePrefix must be a string'')
      else if get opts ''includeComments'' \<noteq> JUndefined
              \<and> \<not> is_boolean (get opts ''includeComments'')
      then Inl (Error ''includeComments must be a boolean'')
      else if get opts ''language'' \<noteq> JUndefined
              \<and> get opts ''language'' \<noteq> JStr ''typescript''
              \<and> get opts ''language'' \<noteq> JStr ''javascript''
      then Inl (Error (''language must be 'typescript' or 'javascript'' @ sq))
      else if get opts ''template'' \<noteq> JUndefined
              \<and> get opts ''template'' \<noteq> JStr ''plain''
              \<and> get opts ''template'' \<noteq> JStr ''pom''
      then Inl (Error (''template must be 'plain' or 'pom'' @ sq))
      else Inr ())"

text \<open>
  The constructor: validate, then spread the defaults and the given options into one
  object, a property of the given options (also one whose value is undefined) replacing
  the default.
\<close>

definition new_PlaywrightGenerator :: "jsobj \<Rightarrow> error + PlaywrightGenerator" where
  "new_PlaywrightGenerator opts =
     (case validateOptions opts of
        Inl e \<Rightarrow> Inl e
      | Inr u \<Rightarrow> Inr \<lparr>options = DEFAULT_OPTIONS ++ opts\<rparr>)"

subsection \<open>From an action to a step\<close>

definition generateNavigateStep :: "jsobj \<Rightarrow> string" where
  "generateNavigateStep ps =
     (let url = get ps ''url''; waitUntil = get ps ''waitUntil'';
          opts = (if truthy waitUntil then '', { waitUntil: '' @ sq @ toStr waitUntil @ ''' }''
                  else [])
      in ''\<newline>    // Navigate to URL\<newline>    await page.goto('' @ sq @ toStr url @ sq
         @ opts @ '');'')"

definition generateFillStep :: "jsobj \<Rightarrow> string" where
  "generateFillStep ps =
     (let selector = get ps ''selector''; val = get ps ''value''
      in ''\<newline>    // Fill input field\<newline>    await page.fill('' @ sq @ toStr selector
         @ ''', '' @ sq @ toStr val @ ''');'')"

definition generateClickStep :: "jsobj \<Rightarrow> string" where
  "generateClickStep ps =
     (let selector = get ps ''selector''
      in ''\<newline>    // Click element\<newline>    await page.click('' @ sq @ toStr selector
         @ ''');'')"

text \<open>
  \<open>fullPage\<close> is read with the default \<open>false\<close>, which replaces an undefined value
  only.
\<close>

definition generateScreenshotStep :: "jsobj \<Rightarrow> string" where
  "generateScreenshotStep ps =
     (let nm = get ps ''name'';
          fullPage = (if get ps ''fullPage'' = JUndefined then JBool False
                      else get ps ''fullPage'');
          pth = get ps ''path'';
          opts = (if truthy fullPage then [''fullPage: true''] else [])
                 @ (if truthy pth then [''path: '' @ sq @ toStr pth @ sq] else []);
          optionsStr = (if length opts > 0 then '', { '' @ join '', '' opts @ '' }'' else [])
      in ''\<newline>    // Take screenshot\<newline>    await page.screenshot({ path: '' @ sq
         @ toStr nm @ ''.png'' @ sq @ optionsStr @ '' });'')"

definition generateExpectResponseStep :: "jsobj \<Rightarrow> string" where
  "generateExpectResponseStep ps =
     (let url = get ps ''url''; ident = get ps ''id''
      in ''\<newline>    // Wait for response\<newline>    const '' @ toStr ident
         @ ''Response = page.waitForResponse('' @ sq @ toStr url @ ''');'')"

definition generateAssertResponseStep :: "jsobj \<Rightarrow> string" where
  "generateAssertResponseStep ps =
     (let ident = get ps ''id''; val = get ps ''value'';
          assertion =
            (if truthy val
             then ''\<newline>    const responseText = await '' @ toStr ident
                  @ ''Response.text();\<newline>    expect(responseText).toContain('' @ sq
                  @ toStr val @ ''');''
             else ''\<newline>    expect('' @ toStr ident @ ''Response.ok()).toBeTruthy();'')
      in ''\<newline>    // Assert response'' @ assertion)"

definition generateHoverStep :: "jsobj \<Rightarrow> string" where
  "generateHoverStep ps =
     (let selector = get ps ''selector''
      in ''\<newline>    // Hover over element\<newline>    await page.hover('' @ sq @ toStr selector
         @ ''');'')"

definition generateSelectStep :: "jsobj \<Rightarrow> string" where
  "generateSelectStep ps =
     (let selector = get ps ''selector''; val = get ps ''value''
      in ''\<newline>    // Select option\<newline>    await page.selectOption('' @ sq
         @ toStr selector @ ''', '' @ sq @ toStr val @ ''');'')"

definition generateCustomUserAgentStep :: "jsobj \<Rightarrow> string" where
  "generateCustomUserAgentStep ps =
     (let userAgent = get ps ''userAgent''
      in ''\<newline>    // Set custom user agent\<newline>    await context.setUserAgent('' @ sq
         @ toStr userAgent @ ''');'')"

text \<open>
  The \<open>switch\<close> on the tool name; \<open>None\<close> is the \<open>null\<close> of the default branch (the
  warning it logs is not part of the model).
\<close>

definition convertActionToStep :: "action \<Rightarrow> string option" where
  "convertActionToStep a =
     (let t = toolName a; ps = parameters a
      in if t = ''playwright_navigate'' then Some (generateNavigateStep ps)
         else if t = ''playwright_fill'' then Some (generateFillStep ps)
         else if t = ''playwright_click'' then Some (generateClickStep ps)
         else if t = ''playwright_screenshot'' then Some (generateScreenshotStep ps)
         else if t = ''playwright_expect_response'' then Some (generateExpectResponseStep ps)
         else if t = ''playwright_assert_response'' then Some (generateAssertResponseStep ps)
         else if t = ''playwright_hover'' then Some (generateHoverStep ps)
         else if t = ''playwright_select'' then Some (generateSelectStep ps)
         else if t = ''playwright_custom_user_agent'' then Some (generateCustomUserAgentStep ps)
         else None)"

text \<open>
  The loop of \<open>createTestCase\<close>: a step is pushed when it is truthy, that is neither
  \<open>null\<close> nor the empty string.
\<close>

fun collectSteps :: "action list \<Rightarrow> string list" where
  "collectSteps [] = []"
| "collectSteps (a # as) =
     (case convertActionToStep a of
        None \<Rightarrow> collectSteps as
      | Some step \<Rightarrow> if step \<noteq> [] then step # collectSteps as else collectSteps as)"

text \<open>
  \<open>createTestCase\<close> is only called once \<open>generateTest\<close> has checked that the actions
  are an array, so it takes them as a list.
\<close>

definition createTestCase ::
  "PlaywrightGenerator \<Rightarrow> session \<Rightarrow> action list \<Rightarrow> error + PlaywrightTestCase" where
  "createTestCase g s acts =
     (case isoDate (startTime s) of
        Inl e \<Rightarrow> Inl e
      | Inr day \<Rightarrow>
          Inr \<lparr>name = toStr (get (options g) ''testNamePrefix'') @ ''_'' @ day,
               steps = collectSteps acts,
               tc_imports = [''test'', ''expect'']\<rparr>)"

subsection \<open>The two test templates\<close>

definition generateTestCode :: "PlaywrightTestCase \<Rightarrow> string" where
  "generateTestCode tc =
     (let imports =
            join ''\<newline>''
              (map (\<lambda>imp. ''import { '' @ imp @ '' } from '@playwright/test';'') (tc_imports tc))
      in ''\<newline>'' @ imports @ ''\<newline>\<newline>test('' @ sq @ name tc
         @ ''', async ({ page, context }) => {\<newline>  '' @ join ''\<newline>'' (steps tc)
         @ ''\<newline>});'')"

text \<open>\<open>s.replace(/^\s+/g, '')\<close> removes the white space at the start of \<open>s\<close>.\<close>

definition trimStart :: "string \<Rightarrow> string" where
  "trimStart s = dropWhile is_space s"

definition generatePomTestCode :: "PlaywrightGenerator \<Rightarrow> PlaywrightTestCase \<Rightarrow> string" where
  "generatePomTestCode g tc =
     (let ext = (if get (options g) ''language'' = JStr ''typescript'' then ''ts'' else ''js'')
      in ''\<newline>import { test, expect } from '@playwright/test';\<newline>''
         @ ''import { AppPage } from './pages/AppPage.'' @ ext @ ''';\<newline>''
         @ ''\<newline>test('' @ sq @ name tc @ ''', async ({ page }) => {\<newline>''
         @ ''  const app = new AppPage(page);\<newline>''
         @ ''  await app.goto();\<newline>''
         @ join ''\<newline>'' (map (\<lambda>s. ''  '' @ trimStart s) (steps tc))
         @ ''\<newline>});'')"

subsection \<open>Locator names\<close>

text \<open>
  \<open>selector.match(re)\<close> with a regular expression without the global flag tries the
  start positions from left to right and returns the groups of the first match.
  \<open>search m s\<close> does this for a matcher \<open>m\<close> that is anchored at the start of its
  argument.
\<close>

fun search :: "(string \<Rightarrow> 'a option) \<Rightarrow> string \<Rightarrow> 'a option" where
  "search m [] = m []"
| "search m (c # cs) = (case m (c # cs) of Some r \<Rightarrow> Some r | None \<Rightarrow> search m cs)"

text \<open>The class \<open>[a-zA-Z0-9_-]\<close>.\<close>

definition is_word :: "char \<Rightarrow> bool" where
  "is_word c =
     (c \<in> set ''abcdefghijklmnopqrstuvwxyzABCDEFGHIJKLMNOPQRSTUVWXYZ0123456789_-'')"

text \<open>
  \<open>/#([a-zA-Z0-9_-]+)/\<close> and \<open>/\.([a-zA-Z0-9_-]+)/\<close> at the start of \<open>s\<close>: the
  mark \<open>x\<close>, then the longest run of word characters, which is the group.
\<close>

definition match_token :: "char \<Rightarrow> string \<Rightarrow> string option" where
  "match_token x s =
     (case s of
        [] \<Rightarrow> None
      | c # cs \<Rightarrow> if c = x \<and> takeWhile is_word cs \<noteq> [] then Some (takeWhile is_word cs)
                 else None)"

text \<open>The class \<open>['"]\<close>, and its complement without the closing bracket, \<open>[^'"\]]\<close>.\<close>

definition is_quote :: "char \<Rightarrow> bool" where
  "is_quote c = (c = CHR 0x27 \<or> c = CHR 0x22)"

definition is_value :: "char \<Rightarrow> bool" where
  "is_value c = (\<not> is_quote c \<and> c \<noteq> CHR '']'')"

text \<open>\<open>['"]?\<close>: one quote is skipped when there is one.\<close>

fun skip_quote :: "string \<Rightarrow> string" where
  "skip_quote [] = []"
| "skip_quote (c # cs) = (if is_quote c then cs else c # cs)"

text \<open>
  \<open>/\[data-[^=]+=['"]?([^'"\]]+)['"]?\]/\<close> at the start of \<open>s\<close>. Each part of this
  expression can match in one way only: \<open>[^=]+\<close> must reach the first \<open>=\<close>, a quote
  that is present must be taken by \<open>['"]?\<close> since the group cannot start with it, and the
  group must take the whole run of value characters since a bracket must follow it. So
  the matcher needs no backtracking.
\<close>

definition match_data :: "string \<Rightarrow> string option" where
  "match_data s =
     (if take 6 s \<noteq> ''[data-'' then None
      else let r = drop 6 s;
               k = takeWhile (\<lambda>c. c \<noteq> CHR ''='') r;
               r1 = dropWhile (\<lambda>c. c \<noteq> CHR ''='') r
           in if k = [] \<or> r1 = [] then None
              else let r2 = skip_quote (tl r1);
                       v = takeWhile is_value r2;
                       r3 = skip_quote (dropWhile is_value r2)
                   in if v \<noteq> [] \<and> take 1 r3 = '']'' then Some v else None)"

definition deriveLocatorName :: "string \<Rightarrow> string" where
  "deriveLocatorName selector =
     (case search (match_token (CHR ''#'')) selector of
        Some idMatch \<Rightarrow> idMatch @ ''Locator''
      | None \<Rightarrow>
          (case search match_data selector of
             Some dataTest \<Rightarrow> dataTest @ ''Locator''
           | None \<Rightarrow>
               (case search (match_token (CHR ''.'')) selector of
                  Some cls \<Rightarrow> cls @ ''Locator''
                | None \<Rightarrow> ''elementLocator'')))"

subsection \<open>The page object and the run configuration\<close>

text \<open>
  The \<open>Map\<close> of selectors keeps its entries in insertion order, so it is a list of
  pairs. A parameter \<open>selector\<close> counts when it is a string and not empty; the first
  selector of a locator name is kept.
\<close>

fun collectSelectors :: "action list \<Rightarrow> (string \<times> string) list \<Rightarrow> (string \<times> string) list" where
  "collectSelectors [] selectors = selectors"
| "collectSelectors (a # as) selectors =
     (case get (parameters a) ''selector'' of
        JStr selector \<Rightarrow>
          if selector \<noteq> []
          then (let key = deriveLocatorName selector
                in if map_of selectors key = None
                   then collectSelectors as (selectors @ [(key, selector)])
                   else collectSelectors as selectors)
          else collectSelectors as selectors
      | _ \<Rightarrow> collectSelectors as selectors)"

definition pageClassHeader_ts :: string where
  "pageClassHeader_ts =
      ''import type { Page } from '@playwright/test';\<newline>'' @
      ''\<newline>'' @
      ''export class AppPage {\<newline>'' @
      ''  readonly page: Page;\<newline>'' @
      ''  constructor(page: Page) {\<newline>'' @
      ''    this.page = page;\<newline>'' @
      ''  }\<newline>''"

definition pageClassHeader_js :: string where
  "pageClassHeader_js =
      ''export class AppPage {\<newline>'' @
      ''  /** @param {import('@playwright/test').Page} page */\<newline>'' @
      ''  constructor(page) {\<newline>'' @
      ''    this.page = page;\<newline>'' @
      ''  }\<newline>''"

definition methods :: string where
  "methods =
      ''\<newline>'' @
      ''  async goto(url) {\<newline>'' @
      ''    if (url) {\<newline>'' @
      ''      await this.page.goto(url);\<newline>'' @
      ''    }\<newline>'' @
      ''  }\<newline>'' @
      ''\<newline>'' @
      ''  async click(selector) {\<newline>'' @
      ''    const target = selector ?? this.safe('primaryButton');\<newline>'' @
      ''    await this.page.locator(target).click({ timeout: 10000 });\<newline>'' @
      ''  }\<newline>'' @
      ''\<newline>'' @
      ''  async fill(selector, value) {\<newline>'' @
      ''    const target = selector ?? this.safe('input');\<newline>'' @
      ''    await this.page.locator(target).fill(String(value ?? '' @
      sq @
      '''));\<newline>'' @
      ''  }\<newline>'' @
      ''\<newline>'' @
      ''  async expectVisible(selector) {\<newline>'' @
      ''    await this.page.locator(selector).waitFor({ state: 'visible', timeout: 10000 });\<newline>'' @
      ''  }\<newline>'' @
      ''\<newline>'' @
      ''  safe(name) {\<newline>'' @
      ''    if (!this[name]) throw new Error('Unknown locator: ' + name);\<newline>'' @
      ''    return this[name];\<newline>'' @
      ''  }\<newline>''"

definition generatePageObject ::
  "PlaywrightGenerator \<Rightarrow> action list \<Rightarrow> error + gen_file" where
  "generatePageObject g acts =
     (let ext = (if get (options g) ''language'' = JStr ''typescript'' then ''ts'' else ''js'');
          pageClassHeader =
            (if get (options g) ''language'' = JStr ''typescript'' then pageClassHeader_ts
             else pageClassHeader_js);
          selectors = collectSelectors acts [];
          locators =
            join ''\<newline>''
              (map (\<lambda>(key, selector). ''  '' @ key @ '' = '' @ sq @ selector @ ''';'') selectors);
          text = pageClassHeader @ ''\<newline>'' @ locators @ ''\<newline>'' @ methods
                 @ ''\<newline>}\<newline>''
      in case path_resolve [get (options g) ''outputPath'', JStr ''pages'', JStr (''AppPage.'' @ ext)] of
           Inl e \<Rightarrow> Inl e
         | Inr resolved \<Rightarrow> Inr \<lparr>path = resolved, content = text\<rparr>)"

text \<open>
  \<open>outputPath.replace(/\\/g, '/')\<close> turns every backslash into a slash; on a value
  that is not a string the call raises a \<open>TypeError\<close>.
\<close>

definition slashes :: "string \<Rightarrow> string" where
  "slashes s = map (\<lambda>c. if c = CHR 0x5C then CHR ''/'' else c) s"

definition generatePlaywrightConfig :: "PlaywrightGenerator \<Rightarrow> error + gen_file" where
  "generatePlaywrightConfig g =
     (let isTs = (get (options g) ''language'' = JStr ''typescript'');
          filename = (if isTs then ''playwright.config.ts'' else ''playwright.config.js'')
      in case get (options g) ''outputPath'' of
           JStr outputPath \<Rightarrow>
             (let base =
                    ''import { defineConfig } from '@playwright/test';\<newline>'' @
                    ''\<newline>'' @
                    ''export default defineConfig({\<newline>'' @
                    ''  testDir: '' @ sq @ slashes outputPath @ ''',\<newline>'' @
                    ''  use: {\<newline>'' @
                    ''    screenshot: 'only-on-failure',\<newline>'' @
                    ''    video: 'retain-on-failure',\<newline>'' @
                    ''    trace: 'on-first-retry'\<newline>'' @
                    ''  },\<newline>'' @
                    ''});\<newline>''
              in case path_resolve [JStr filename] of
                   Inl e \<Rightarrow> Inl e
                 | Inr p \<Rightarrow> Inr \<lparr>path = p, content = base\<rparr>)
         | _ \<Rightarrow> Inl TypeError)"

subsection \<open>The path of the test file\<close>

text \<open>The class \<open>[a-z0-9_]\<close> and \<open>replace(/[^a-z0-9_]/g, '_')\<close>.\<close>

definition is_name_char :: "char \<Rightarrow> bool" where
  "is_name_char c = (c \<in> set ''abcdefghijklmnopqrstuvwxyz0123456789_'')"

definition sanitize :: "string \<Rightarrow> string" where
  "sanitize s = map (\<lambda>c. if is_name_char c then c else CHR ''_'') s"

definition getOutputFilePath :: "PlaywrightGenerator \<Rightarrow> session \<Rightarrow> error + fspath" where
  "getOutputFilePath g s =
     (if \<not> truthy (session_id s) then Inl (Error ''Session ID is required'')
      else case get (options g) ''testNamePrefix'' of
             JStr testNamePrefix \<Rightarrow>
               (let sanitizedPrefix = sanitize (toLowerCase testNamePrefix);
                    fileName = sanitizedPrefix @ ''_'' @ toStr (session_id s) @ ''.spec.ts''
                in path_resolve [get (options g) ''outputPath'', JStr fileName])
           | _ \<Rightarrow> Inl TypeError)"

subsection \<open>\<open>generateTest\<close>\<close>

text \<open>
  The method is \<open>async\<close>: an exception raised in its body rejects the promise it
  returns. The model gives the outcome of that promise, \<open>Inl\<close> for a rejection.
\<close>

definition generateTest :: "PlaywrightGenerator \<Rightarrow> session option \<Rightarrow> error + CodegenResult" where
  "generateTest g session =
     (case session of
        None \<Rightarrow> Inl (Error ''Invalid session data'')
      | Some s \<Rightarrow>
         (case actions s of
            None \<Rightarrow> Inl (Error ''Invalid session data'')
          | Some acts \<Rightarrow>
             (case createTestCase g s acts of
                Inl e \<Rightarrow> Inl e
              | Inr testCase \<Rightarrow>
                 (let isPom = (get (options g) ''template'' = JStr ''pom'')
                  in case (if isPom then map_sum id (\<lambda>f. [f]) (generatePageObject g acts)
                           else Inr []) of
                       Inl e \<Rightarrow> Inl e
                     | Inr files1 \<Rightarrow>
                        (let code = (if isPom then generatePomTestCode g testCase
                                     else generateTestCode testCase)
                         in case getOutputFilePath g s of
                              Inl e \<Rightarrow> Inl e
                            | Inr fp \<Rightarrow>
                               (case (if isPom
                                      then map_sum id (\<lambda>c. files1 @ [c]) (generatePlaywrightConfig g)
                                      else Inr files1) of
                                  Inl e \<Rightarrow> Inl e
                                | Inr files2 \<Rightarrow>
                                    Inr \<lparr>testCode = code, filePath = fp,
                                         sessionId = session_id s,
                                         files = (if length files2 \<noteq> 0 then Some files2
                                                  else None)\<rparr>))))))"

section \<open>Notions the properties are stated with\<close>

text \<open>A start time that \<open>toISOString\<close> accepts.\<close>

definition valid_time :: "int option \<Rightarrow> bool" where
  "valid_time t = (case t of None \<Rightarrow> False | Some ms \<Rightarrow> \<bar>ms\<bar> \<le> 8640000000000000)"

text \<open>
  A valid session: its actions are an array, its id is truthy (for a string: not empty)
  and its start time is a valid date.
\<close>

definition valid_session :: "session \<Rightarrow> bool" where
  "valid_session s =
     (actions s \<noteq> None \<and> truthy (session_id s) \<and> valid_time (startTime s))"

text \<open>The file extension that the generator derives from the language option.\<close>

definition ext_of :: "PlaywrightGenerator \<Rightarrow> string" where
  "ext_of g = (if get (options g) ''language'' = JStr ''typescript'' then ''ts'' else ''js'')"

text \<open>The nine tool names of the \<open>switch\<close> in \<open>convertActionToStep\<close>.\<close>

definition recognized_tools :: "string list" where
  "recognized_tools =
     [''playwright_navigate'', ''playwright_fill'', ''playwright_click'',
      ''playwright_screenshot'', ''playwright_expect_response'',
      ''playwright_assert_response'', ''playwright_hover'', ''playwright_select'',
      ''playwright_custom_user_agent'']"

definition recognized :: "action \<Rightarrow> bool" where
  "recognized a = (toolName a \<in> set recognized_tools)"

text \<open>
  The options that the constructor rejects, and the messages of its five checks. The
  checks of \<open>outputPath\<close> and \<open>testNamePrefix\<close> apply to truthy values only.
\<close>

definition ill_typed :: "jsobj \<Rightarrow> bool" where
  "ill_typed opts =
     ((truthy (get opts ''outputPath'') \<and> \<not> is_string (get opts ''outputPath''))
      \<or> (truthy (get opts ''testNamePrefix'') \<and> \<not> is_string (get opts ''testNamePrefix''))
      \<or> (get opts ''includeComments'' \<noteq> JUndefined
          \<and> \<not> is_boolean (get opts ''includeComments''))
      \<or> get opts ''language'' \<notin> {JUndefined, JStr ''typescript'', JStr ''javascript''}
      \<or> get opts ''template'' \<notin> {JUndefined, JStr ''plain'', JStr ''pom''})"

definition option_messages :: "string list" where
  "option_messages =
     [''outputPath must be a string'', ''testNamePrefix must be a string'',
      ''includeComments must be a boolean'',
      ''language must be 'typescript' or 'javascript'' @ sq,
      ''template must be 'plain' or 'pom'' @ sq]"

text \<open>
  Tokens of a selector. An id token \<open>#x\<close> (and a class token \<open>.x\<close>) at position
  \<open>i\<close> of \<open>s\<close> is the mark followed by \<open>x\<close>, the longest run of characters of
  \<open>[a-zA-Z0-9_-]\<close> there, which is not empty.
\<close>

definition token_at :: "char \<Rightarrow> string \<Rightarrow> nat \<Rightarrow> string \<Rightarrow> bool" where
  "token_at mark s i x =
     (i \<le> length s \<and>
      (\<exists>post. drop i s = mark # x @ post \<and> x \<noteq> [] \<and> list_all is_word x
              \<and> (post = [] \<or> \<not> is_word (hd post))))"

text \<open>
  A data attribute \<open>[data-k=v]\<close> at position \<open>i\<close> of \<open>s\<close>: the name \<open>k\<close> is not
  empty and has no \<open>=\<close>; the value \<open>v\<close> is not empty and has no quote and no closing
  bracket; one quote may stand before the value and one after it.
\<close>

definition opt_quote :: "string \<Rightarrow> bool" where
  "opt_quote q = (q = [] \<or> q = [CHR 0x27] \<or> q = [CHR 0x22])"

definition data_attr_at :: "string \<Rightarrow> nat \<Rightarrow> string \<Rightarrow> bool" where
  "data_attr_at s i v =
     (i \<le> length s \<and>
      (\<exists>k q1 q2 post.
          drop i s = ''[data-'' @ k @ ''='' @ q1 @ v @ q2 @ '']'' @ post
          \<and> k \<noteq> [] \<and> CHR ''='' \<notin> set k \<and> opt_quote q1 \<and> opt_quote q2
          \<and> v \<noteq> [] \<and> list_all is_value v))"

text \<open>The first occurrence of a token, and a selector without any.\<close>

definition first_at :: "(nat \<Rightarrow> string \<Rightarrow> bool) \<Rightarrow> string \<Rightarrow> bool" where
  "first_at occurs x = (\<exists>i. occurs i x \<and> (\<forall>j y. occurs j y \<longrightarrow> i \<le> j))"

definition nowhere :: "(nat \<Rightarrow> string \<Rightarrow> bool) \<Rightarrow> bool" where
  "nowhere occurs = (\<forall>i x. \<not> occurs i x)"










section \<open>Syntactically valid test code\<close>

text \<open>
  The test code is an ECMAScript module. Its validity is stated for a fragment of the
  language that holds what the generator writes: import declarations with named
  bindings, \<open>const\<close> declarations and expression statements ending with a semicolon,
  calls and member accesses, \<open>new\<close> and \<open>await\<close>, single-quoted string literals
  without escapes, object literals, and \<open>async\<close> arrow functions with one object
  pattern as parameter and a block as body. A text outside the fragment is not valid in
  the sense of this section, whatever the language says of it.
\<close>

subsection \<open>Tokens\<close>

datatype token = Ident string | StrLit string | Punct char | Arrow






subsection \<open>Grammar\<close>

text \<open>
  The words that cannot name a binding in a module. \<open>async\<close>, \<open>eval\<close> and
  \<open>arguments\<close> are left out of the names as well, which only makes the fragment
  smaller. A reference is a name or one of the literal words.
\<close>

definition reserved_words :: "string list" where
  "reserved_words =
     [''arguments'', ''async'', ''await'', ''break'', ''case'', ''catch'', ''class'', ''const'',
      ''continue'', ''debugger'', ''default'', ''delete'', ''do'', ''else'', ''enum'', ''eval'',
      ''export'', ''extends'', ''false'', ''finally'', ''for'', ''function'', ''if'',
      ''implements'', ''import'', ''in'', ''instanceof'', ''interface'', ''let'', ''new'',
      ''null'', ''package'', ''private'', ''protected'', ''public'', ''return'', ''static'',
      ''super'', ''switch'', ''this'', ''throw'', ''true'', ''try'', ''typeof'', ''var'',
      ''void'', ''while'', ''with'', ''yield'']"

definition binding_name :: "string \<Rightarrow> bool" where
  "binding_name x = (x \<notin> set reserved_words)"

definition reference :: "string \<Rightarrow> bool" where
  "reference x = (binding_name x \<or> x \<in> set [''true'', ''false'', ''null'', ''this''])"

text \<open>
  Each predicate relates a token list to what remains of it after one phrase:
  \<open>unary ts r\<close> holds when \<open>ts\<close> starts with a unary expression and \<open>r\<close> follows it.
  \<open>names\<close>, \<open>stmt\<close> and \<open>stmts\<close> also give the names they bind. A block binds no
  name twice and none of the parameters of its function; an expression statement starts
  with a word, so neither with a brace nor with a string literal; an object literal has
  no key \<open>__proto__\<close>.
\<close>

inductive names :: "token list \<Rightarrow> string list \<Rightarrow> token list \<Rightarrow> bool" where
  names_one: "binding_name x \<Longrightarrow> names (Ident x # r) [x] r"
| names_more:
    "binding_name x \<Longrightarrow> names r0 xs r \<Longrightarrow> names (Ident x # Punct (CHR '','') # r0) (x # xs) r"

inductive primary :: "token list \<Rightarrow> token list \<Rightarrow> bool"
  and suffixes :: "token list \<Rightarrow> token list \<Rightarrow> bool"
  and unary :: "token list \<Rightarrow> token list \<Rightarrow> bool"
  and expr :: "token list \<Rightarrow> token list \<Rightarrow> bool"
  and exprs :: "token list \<Rightarrow> token list \<Rightarrow> bool"
  and arguments :: "token list \<Rightarrow> token list \<Rightarrow> bool"
  and props :: "token list \<Rightarrow> token list \<Rightarrow> bool"
  and stmt :: "token list \<Rightarrow> string list \<Rightarrow> token list \<Rightarrow> bool"
  and stmts :: "token list \<Rightarrow> string list \<Rightarrow> token list \<Rightarrow> bool"
where
  primary_ref: "reference x \<Longrightarrow> primary (Ident x # r) r"
| primary_str: "primary (StrLit s # r) r"
| primary_obj: "props r0 (Punct (CHR ''}'') # r) \<Longrightarrow> primary (Punct (CHR ''{'') # r0) r"
| primary_new:
    "binding_name c \<Longrightarrow> arguments r0 r \<Longrightarrow> primary (Ident ''new'' # Ident c # r0) r"
| suffix_none: "suffixes r r"
| suffix_member: "suffixes r0 r \<Longrightarrow> suffixes (Punct (CHR ''.'') # Ident p # r0) r"
| suffix_call: "arguments r0 r1 \<Longrightarrow> suffixes r1 r \<Longrightarrow> suffixes r0 r"
| unary_lhs: "primary ts r0 \<Longrightarrow> suffixes r0 r \<Longrightarrow> unary ts r"
| unary_await: "unary r0 r \<Longrightarrow> unary (Ident ''await'' # r0) r"
| expr_unary: "unary ts r \<Longrightarrow> expr ts r"
| expr_arrow:
    "names r0 ps (Punct (CHR ''}'') # Punct (CHR '')'') # Arrow # Punct (CHR ''{'') # r1)
     \<Longrightarrow> distinct ps \<Longrightarrow> stmts r1 ds (Punct (CHR ''}'') # r)
     \<Longrightarrow> distinct ds \<Longrightarrow> set ds \<inter> set ps = {}
     \<Longrightarrow> expr (Ident ''async'' # Punct (CHR ''('') # Punct (CHR ''{'') # r0) r"
| exprs_one: "expr ts r \<Longrightarrow> exprs ts r"
| exprs_more: "expr ts (Punct (CHR '','') # r0) \<Longrightarrow> exprs r0 r \<Longrightarrow> exprs ts r"
| args_none: "arguments (Punct (CHR ''('') # Punct (CHR '')'') # r) r"
| args_some: "exprs r0 (Punct (CHR '')'') # r) \<Longrightarrow> arguments (Punct (CHR ''('') # r0) r"
| props_one:
    "k \<noteq> ''__proto__'' \<Longrightarrow> expr r0 r \<Longrightarrow> props (Ident k # Punct (CHR '':'') # r0) r"
| props_more:
    "k \<noteq> ''__proto__'' \<Longrightarrow> expr r0 (Punct (CHR '','') # r1) \<Longrightarrow> props r1 r
     \<Longrightarrow> props (Ident k # Punct (CHR '':'') # r0) r"
| stmt_const:
    "binding_name x \<Longrightarrow> expr r0 (Punct (CHR '';'') # r)
     \<Longrightarrow> stmt (Ident ''const'' # Ident x # Punct (CHR ''='') # r0) [x] r"
| stmt_expr: "expr (Ident x # ts) (Punct (CHR '';'') # r) \<Longrightarrow> stmt (Ident x # ts) [] r"
| stmts_none: "stmts r [] r"
| stmts_more: "stmt ts d r0 \<Longrightarrow> stmts r0 ds r \<Longrightarrow> stmts ts (d @ ds) r"



code_pred names .

code_pred primary .




subsection \<open>Actions whose steps stay within the grammar\<close>




subsection \<open>The tokens of each step\<close>









section \<open>The page-state query tools\<close>

text \<open>
  Modelled from the spec: the host context that the two tools receive and the result
  they return; the declarations (\<open>tools/common/types\<close>) are not among the files of
  the repository. A page of the browser library is modelled as far as the tools use it:
  whether it is closed, and what the one library call of each tool gives, \<open>Inr\<close> the
  returned content and \<open>Inl\<close> the message of the error it throws (\<open>evaluate\<close> for
  the visible text, \<open>content\<close> for the HTML). A context may lack its page or its
  browser.
\<close>

record Page =
  isClosed :: bool
  evaluate :: "string + string"
  pageContent :: "string + string"

record Browser =
  isConnected :: bool

record ToolContext =
  ctx_page :: "Page option"
  ctx_browser :: "Browser option"

record ToolResponse =
  isError :: bool
  response_text :: string

text \<open>
  Modelled from the spec: the steps a tool takes, in the order it takes them, and the two
  kinds of result, a structured failure and a success, each carrying a text.
\<close>

datatype tool_step = VerifyPage | VerifyConnected | VerifyNotClosed | LibraryCall

definition createErrorResponse :: "string \<Rightarrow> ToolResponse" where
  "createErrorResponse message = \<lparr>isError = True, response_text = message\<rparr>"

definition createSuccessResponse :: "string \<Rightarrow> ToolResponse" where
  "createSuccessResponse message = \<lparr>isError = False, response_text = message\<rparr>"

text \<open>
  Modelled from the spec: the \<open>execute\<close> operation of \<open>VisibleTextTool\<close> and of
  \<open>VisibleHtmlTool\<close> (\<open>tools/browser/visiblePage\<close>), whose source is not among the
  files of the repository; only its test is. The spec gives the steps: verify that a
  page reference exists, verify that the browser is connected, verify that the page is
  not closed, invoke one library call, wrap the result, and map a thrown error to a
  failure message. The texts are those the spec's properties and the test name. A
  context without a browser counts as not connected. \<open>visible_execute\<close> is the common
  shape of the two tools: \<open>call\<close> selects the library call, \<open>label\<close> starts the text
  of a success and \<open>failure\<close> the text of a failure of the call. It returns the
  response and the steps taken.
\<close>

definition visible_execute ::
  "(Page \<Rightarrow> string + string) \<Rightarrow> string \<Rightarrow> string \<Rightarrow> ToolContext
     \<Rightarrow> ToolResponse \<times> tool_step list" where
  "visible_execute call label failure ctx =
     (case ctx_page ctx of
        None \<Rightarrow> (createErrorResponse ''Page is not available'', [VerifyPage])
      | Some page \<Rightarrow>
          if \<not> (case ctx_browser ctx of None \<Rightarrow> False | Some b \<Rightarrow> isConnected b)
          then (createErrorResponse ''Browser is not connected'', [VerifyPage, VerifyConnected])
          else if isClosed page
          then (createErrorResponse ''Page is not available or has been closed'',
                [VerifyPage, VerifyConnected, VerifyNotClosed])
          else (case call page of
                  Inl message \<Rightarrow>
                    (createErrorResponse (failure @ '': '' @ message),
                     [VerifyPage, VerifyConnected, VerifyNotClosed, LibraryCall])
                | Inr text \<Rightarrow>
                    (createSuccessResponse (label @ '':\<newline>'' @ text),
                     [VerifyPage, VerifyConnected, VerifyNotClosed, LibraryCall])))"

text \<open>
  Modelled from the spec: \<open>VisibleTextTool.execute\<close>, the visible text of the page by
  one \<open>evaluate\<close> call.
\<close>

definition VisibleTextTool_execute :: "ToolContext \<Rightarrow> ToolResponse \<times> tool_step list" where
  "VisibleTextTool_execute =
     visible_execute evaluate ''Visible text content'' ''Failed to get visible text content''"

text \<open>
  Modelled from the spec: \<open>VisibleHtmlTool.execute\<close>, the HTML of the page by one
  \<open>content\<close> call. The filters that the test passes as arguments are not part of the
  spec's description of the tool and are not modelled.
\<close>

definition VisibleHtmlTool_execute :: "ToolContext \<Rightarrow> ToolResponse \<times> tool_step list" where
  "VisibleHtmlTool_execute =
     visible_execute pageContent ''HTML content'' ''Failed to get visible HTML content''"


section \<open>Facts about the library functions and the parts of \<open>generateTest\<close>\<close>

lemma isoDate_valid: "valid_time t \<Longrightarrow> \<exists>day. isoDate t = Inr day"
  by (auto simp: valid_time_def isoDate_def split: option.splits prod.splits)

lemma isoDate_invalid: "\<not> valid_time t \<Longrightarrow> isoDate t = Inl RangeError"
  by (auto simp: valid_time_def isoDate_def split: option.splits prod.splits)

lemma path_resolve_strings:
  "path_resolve (map JStr ss) = Inr (PathResolve (filter (\<lambda>s. s \<noteq> []) ss))"
proof -
  have "segments (map JStr ss) = Some (filter (\<lambda>s. s \<noteq> []) ss)"
    by (induction ss) auto
  then show ?thesis by (simp add: path_resolve_def)
qed

lemma path_resolve2:
  "path_resolve [JStr a, JStr b] = Inr (PathResolve (filter (\<lambda>s. s \<noteq> []) [a, b]))"
  using path_resolve_strings [of "[a, b]"] by simp

lemma path_resolve3:
  "path_resolve [JStr a, JStr b, JStr c] = Inr (PathResolve (filter (\<lambda>s. s \<noteq> []) [a, b, c]))"
  using path_resolve_strings [of "[a, b, c]"] by simp

lemma path_resolve_not_string:
  "\<not> is_string v \<Longrightarrow> path_resolve (v # vs) = Inl TypeError"
  by (cases v) (simp_all add: path_resolve_def)

lemma is_string_iff: "is_string v \<longleftrightarrow> (\<exists>s. v = JStr s)"
  by (cases v) simp_all

lemma generatePageObject_string:
  assumes "get (options g) ''outputPath'' = JStr out"
  shows "\<exists>txt. generatePageObject g acts =
           Inr \<lparr>path = PathResolve (filter (\<lambda>s. s \<noteq> []) [out, ''pages'', ''AppPage.'' @ ext_of g]),
                content = txt\<rparr>"
  unfolding generatePageObject_def Let_def assms ext_of_def path_resolve3 by simp

lemma generatePlaywrightConfig_string:
  assumes "get (options g) ''outputPath'' = JStr out"
  shows "\<exists>txt. generatePlaywrightConfig g =
           Inr \<lparr>path = PathResolve [''playwright.config.'' @ ext_of g], content = txt\<rparr>"
  unfolding generatePlaywrightConfig_def Let_def assms ext_of_def
  by (simp add: path_resolve_def)

lemma getOutputFilePath_string:
  assumes "get (options g) ''outputPath'' = JStr out"
    and "get (options g) ''testNamePrefix'' = JStr pfx"
    and "truthy (session_id s)"
  shows "getOutputFilePath g s =
           Inr (PathResolve (filter (\<lambda>s. s \<noteq> [])
                  [out, sanitize (toLowerCase pfx) @ ''_'' @ toStr (session_id s) @ ''.spec.ts'']))"
  unfolding getOutputFilePath_def Let_def using assms by (simp add: path_resolve2)

lemma getOutputFilePath_fails:
  assumes "\<not> is_string (get (options g) ''outputPath'')
           \<or> \<not> is_string (get (options g) ''testNamePrefix'') \<or> \<not> truthy (session_id s)"
  shows "\<exists>e. getOutputFilePath g s = Inl e"
  unfolding getOutputFilePath_def Let_def using assms
  by (auto simp: path_resolve_not_string split: jsval.splits)

text \<open>What \<open>generateTest\<close> returns for a valid session and string options.\<close>

lemma generateTest_valid:
  assumes out: "get (options g) ''outputPath'' = JStr out"
    and pfx: "get (options g) ''testNamePrefix'' = JStr pfx"
    and acts: "actions s = Some acts"
    and sid: "truthy (session_id s)"
    and tm: "valid_time (startTime s)"
  shows "\<exists>r. generateTest g (Some s) = Inr r
           \<and> filePath r = PathResolve (filter (\<lambda>s. s \<noteq> [])
                  [out, sanitize (toLowerCase pfx) @ ''_'' @ toStr (session_id s) @ ''.spec.ts''])
           \<and> sessionId r = session_id s
           \<and> (\<exists>tc. createTestCase g s acts = Inr tc
                   \<and> testCode r = (if get (options g) ''template'' = JStr ''pom''
                                     then generatePomTestCode g tc else generateTestCode tc))
           \<and> (get (options g) ''template'' = JStr ''pom'' \<longrightarrow>
                (\<exists>po cfg. files r = Some [po, cfg] \<and> generatePageObject g acts = Inr po
                    \<and> generatePlaywrightConfig g = Inr cfg))
           \<and> (get (options g) ''template'' \<noteq> JStr ''pom'' \<longrightarrow> files r = None)"
proof -
  obtain day where day: "isoDate (startTime s) = Inr day"
    using isoDate_valid [OF tm] by blast
  obtain t1 where po: "generatePageObject g acts =
      Inr \<lparr>path = PathResolve (filter (\<lambda>s. s \<noteq> []) [out, ''pages'', ''AppPage.'' @ ext_of g]),
           content = t1\<rparr>"
    using generatePageObject_string [OF out] by blast
  obtain t2 where cfg: "generatePlaywrightConfig g =
      Inr \<lparr>path = PathResolve [''playwright.config.'' @ ext_of g], content = t2\<rparr>"
    using generatePlaywrightConfig_string [OF out] by blast
  note fp = getOutputFilePath_string [OF out pfx sid]
  show ?thesis
    unfolding generateTest_def createTestCase_def Let_def
    by (simp add: acts day po cfg fp)
qed

text \<open>When \<open>generateTest\<close> returns: the conditions do not mention the actions.\<close>

lemma generateTest_returns_iff:
  "(\<exists>r. generateTest g (Some s) = Inr r) \<longleftrightarrow>
     valid_session s \<and> is_string (get (options g) ''outputPath'')
     \<and> is_string (get (options g) ''testNamePrefix'')"
proof
  assume "valid_session s \<and> is_string (get (options g) ''outputPath'')
     \<and> is_string (get (options g) ''testNamePrefix'')"
  then obtain out pfx acts where "get (options g) ''outputPath'' = JStr out"
    "get (options g) ''testNamePrefix'' = JStr pfx" "actions s = Some acts"
    "truthy (session_id s)" "valid_time (startTime s)"
    by (auto simp: valid_session_def is_string_iff)
  from generateTest_valid [OF this] show "\<exists>r. generateTest g (Some s) = Inr r" by blast
next
  assume ok: "\<exists>r. generateTest g (Some s) = Inr r"
  show "valid_session s \<and> is_string (get (options g) ''outputPath'')
     \<and> is_string (get (options g) ''testNamePrefix'')"
  proof (rule ccontr)
    assume neg: "\<not> ?thesis"
    have "\<exists>e. generateTest g (Some s) = Inl e"
    proof (cases "actions s")
      case None
      then show ?thesis by (simp add: generateTest_def)
    next
      case (Some acts)
      show ?thesis
      proof (cases "valid_time (startTime s)")
        case False
        then show ?thesis
          by (simp add: generateTest_def createTestCase_def Some isoDate_invalid)
      next
        case True
        with neg Some have "\<not> is_string (get (options g) ''outputPath'')
           \<or> \<not> is_string (get (options g) ''testNamePrefix'') \<or> \<not> truthy (session_id s)"
          by (auto simp: valid_session_def)
        from getOutputFilePath_fails [OF this] obtain e where "getOutputFilePath g s = Inl e"
          by blast
        then show ?thesis
          unfolding generateTest_def Let_def
          by (simp add: Some split: sum.splits)
      qed
    qed
    with ok show False by auto
  qed
qed


lemma validateOptions_ill_typed:
  "ill_typed opts \<Longrightarrow> \<exists>m. validateOptions opts = Inl (Error m) \<and> m \<in> set option_messages"
  unfolding ill_typed_def validateOptions_def option_messages_def by auto

lemma validateOptions_well_typed:
  "\<not> ill_typed opts \<Longrightarrow> validateOptions opts = Inr ()"
  unfolding ill_typed_def validateOptions_def by auto

lemma get_merged:
  "get (DEFAULT_OPTIONS ++ opts) k = (case opts k of Some v \<Rightarrow> v | None \<Rightarrow> get DEFAULT_OPTIONS k)"
  by (simp add: get_def map_add_def split: option.splits)

lemma validate_empty_outputPath:
  assumes "opts ''outputPath'' = Some (JStr [])"
  shows "validateOptions opts = validateOptions (opts(''outputPath'' := None))"
  using assms by (simp add: validateOptions_def get_def)

lemma validate_empty_prefix:
  assumes "opts ''testNamePrefix'' = Some (JStr [])"
  shows "validateOptions opts = validateOptions (opts(''testNamePrefix'' := None))"
  using assms by (simp add: validateOptions_def get_def)

lemma new_options:
  "new_PlaywrightGenerator opts = Inr g \<Longrightarrow> options g = DEFAULT_OPTIONS ++ opts"
  by (auto simp: new_PlaywrightGenerator_def split: sum.splits)


lemma sanitize_chars: "set (sanitize s) \<subseteq> set ''abcdefghijklmnopqrstuvwxyz0123456789_''"
  unfolding sanitize_def is_name_char_def by auto

lemma sanitize_nth:
  "i < length s \<Longrightarrow>
     sanitize s ! i = (if s ! i \<in> set ''abcdefghijklmnopqrstuvwxyz0123456789_'' then s ! i else CHR ''_'')"
  unfolding sanitize_def is_name_char_def by simp


section \<open>Steps of recognized and of other actions\<close>

lemma convert_recognized:
  "recognized a \<Longrightarrow> \<exists>step. convertActionToStep a = Some step \<and> step \<noteq> []"
  unfolding recognized_def recognized_tools_def convertActionToStep_def Let_def
    generateNavigateStep_def generateFillStep_def generateClickStep_def
    generateScreenshotStep_def generateExpectResponseStep_def generateAssertResponseStep_def
    generateHoverStep_def generateSelectStep_def generateCustomUserAgentStep_def
  by auto

lemma convert_unrecognized:
  "\<not> recognized a \<Longrightarrow> convertActionToStep a = None"
  unfolding recognized_def recognized_tools_def convertActionToStep_def Let_def
  by simp

lemma collectSteps_recognized:
  "collectSteps acts = map (\<lambda>a. the (convertActionToStep a)) (filter recognized acts)"
proof (induction acts)
  case Nil
  show ?case by simp
next
  case (Cons a acts)
  show ?case
  proof (cases "recognized a")
    case True
    then obtain step where "convertActionToStep a = Some step" "step \<noteq> []"
      using convert_recognized by blast
    with True Cons show ?thesis by simp
  next
    case False
    with Cons show ?thesis by (simp add: convert_unrecognized)
  qed
qed

lemma collectSteps_filter:
  "collectSteps (filter recognized acts) = collectSteps acts"
  by (simp add: collectSteps_recognized)

section \<open>The text of each step\<close>

lemma sublist_mid: "ys = ps @ xs @ ss \<Longrightarrow> sublist xs ys"
  by (auto simp: sublist_def)

















section \<open>Searching a selector for a token\<close>

lemma search_Some_iff:
  "search m s = Some r \<longleftrightarrow>
     (\<exists>i\<le>length s. m (drop i s) = Some r \<and> (\<forall>j<i. m (drop j s) = None))"
proof (induction s)
  case Nil
  show ?case by simp
next
  case (Cons c cs)
  show ?case
  proof (cases "m (c # cs)")
    case (Some r')
    have "(\<exists>i\<le>length (c # cs). m (drop i (c # cs)) = Some r \<and> (\<forall>j<i. m (drop j (c # cs)) = None))
          \<longleftrightarrow> r' = r"
    proof
      assume "\<exists>i\<le>length (c # cs). m (drop i (c # cs)) = Some r \<and> (\<forall>j<i. m (drop j (c # cs)) = None)"
      then obtain i where i: "m (drop i (c # cs)) = Some r" "\<forall>j<i. m (drop j (c # cs)) = None"
        by blast
      have "i = 0"
      proof (rule ccontr)
        assume "i \<noteq> 0"
        with i(2) have "m (drop 0 (c # cs)) = None" by blast
        with Some show False by simp
      qed
      with i(1) Some show "r' = r" by simp
    next
      assume "r' = r"
      with Some have "m (drop 0 (c # cs)) = Some r \<and> (\<forall>j<0. m (drop j (c # cs)) = None)"
        by simp
      then show "\<exists>i\<le>length (c # cs). m (drop i (c # cs)) = Some r \<and> (\<forall>j<i. m (drop j (c # cs)) = None)"
        by blast
    qed
    with Some show ?thesis by simp
  next
    case None
    have "(\<exists>i\<le>length (c # cs). m (drop i (c # cs)) = Some r \<and> (\<forall>j<i. m (drop j (c # cs)) = None))
          \<longleftrightarrow> (\<exists>i\<le>length cs. m (drop i cs) = Some r \<and> (\<forall>j<i. m (drop j cs) = None))"
      (is "?L \<longleftrightarrow> ?R")
    proof
      assume ?L
      then obtain i where i: "i \<le> length (c # cs)" "m (drop i (c # cs)) = Some r"
        "\<forall>j<i. m (drop j (c # cs)) = None"
        by blast
      with None obtain i' where i': "i = Suc i'"
        by (cases i) auto
      have "\<forall>j<i'. m (drop j cs) = None"
      proof (intro allI impI)
        fix j assume "j < i'"
        then have "Suc j < i" by (simp add: i')
        with i(3) have "m (drop (Suc j) (c # cs)) = None" by blast
        then show "m (drop j cs) = None" by simp
      qed
      with i i' show ?R by auto
    next
      assume ?R
      then obtain i where i: "i \<le> length cs" "m (drop i cs) = Some r" "\<forall>j<i. m (drop j cs) = None"
        by blast
      have "\<forall>j<Suc i. m (drop j (c # cs)) = None"
      proof (intro allI impI)
        fix j assume j: "j < Suc i"
        show "m (drop j (c # cs)) = None"
        proof (cases j)
          case 0
          with None show ?thesis by simp
        next
          case (Suc j')
          with j i(3) show ?thesis by simp
        qed
      qed
      with i have "Suc i \<le> length (c # cs) \<and> m (drop (Suc i) (c # cs)) = Some r
          \<and> (\<forall>j<Suc i. m (drop j (c # cs)) = None)"
        by simp
      then show ?L by blast
    qed
    with None Cons show ?thesis by simp
  qed
qed

lemma search_None_iff:
  "search m s = None \<longleftrightarrow> (\<forall>i\<le>length s. m (drop i s) = None)"
proof (induction s)
  case Nil
  show ?case by simp
next
  case (Cons c cs)
  have "(\<forall>i\<le>length (c # cs). m (drop i (c # cs)) = None)
        \<longleftrightarrow> m (c # cs) = None \<and> (\<forall>i\<le>length cs. m (drop i cs) = None)"
    (is "?L \<longleftrightarrow> ?R")
  proof
    assume l: ?L
    have "m (drop 0 (c # cs)) = None" using l by blast
    moreover have "\<forall>i\<le>length cs. m (drop i cs) = None"
    proof (intro allI impI)
      fix i assume "i \<le> length cs"
      then have "m (drop (Suc i) (c # cs)) = None" using l by auto
      then show "m (drop i cs) = None" by simp
    qed
    ultimately show ?R by simp
  next
    assume r: ?R
    show ?L
    proof (intro allI impI)
      fix i assume "i \<le> length (c # cs)"
      with r show "m (drop i (c # cs)) = None" by (cases i) auto
    qed
  qed
  with Cons show ?case by (simp split: option.splits)
qed

lemma run_takeWhile:
  assumes "list_all P x" "rest = [] \<or> \<not> P (hd rest)"
  shows "takeWhile P (x @ rest) = x" "dropWhile P (x @ rest) = rest"
proof -
  from assms(2) have t: "takeWhile P rest = []" and d: "dropWhile P rest = rest"
    by (cases rest; simp)+
  from assms(1) have all: "\<And>c. c \<in> set x \<Longrightarrow> P c"
    by (simp add: list_all_iff)
  show "takeWhile P (x @ rest) = x"
    using all t by (simp add: takeWhile_append2)
  show "dropWhile P (x @ rest) = rest"
    using all d by (simp add: dropWhile_append2)
qed

lemma takeWhile_run:
  "list_all P (takeWhile P xs) \<and> (dropWhile P xs = [] \<or> \<not> P (hd (dropWhile P xs)))"
proof
  show "list_all P (takeWhile P xs)"
    by (auto simp: list_all_iff dest: set_takeWhileD)
  show "dropWhile P xs = [] \<or> \<not> P (hd (dropWhile P xs))"
    using hd_dropWhile [of P xs] by blast
qed

lemma match_token_iff:
  "match_token mark s = Some x \<longleftrightarrow>
     (\<exists>post. s = mark # x @ post \<and> x \<noteq> [] \<and> list_all is_word x
            \<and> (post = [] \<or> \<not> is_word (hd post)))"
proof
  assume m: "match_token mark s = Some x"
  then obtain cs where s: "s = mark # cs" and x: "x = takeWhile is_word cs" "x \<noteq> []"
    by (auto simp: match_token_def split: list.splits if_splits)
  have "s = mark # x @ dropWhile is_word cs"
    by (simp add: s x)
  with x takeWhile_run [of is_word cs]
  show "\<exists>post. s = mark # x @ post \<and> x \<noteq> [] \<and> list_all is_word x
            \<and> (post = [] \<or> \<not> is_word (hd post))"
    by blast
next
  assume "\<exists>post. s = mark # x @ post \<and> x \<noteq> [] \<and> list_all is_word x
            \<and> (post = [] \<or> \<not> is_word (hd post))"
  then obtain post where s: "s = mark # x @ post" and x: "x \<noteq> []" "list_all is_word x"
    and post: "post = [] \<or> \<not> is_word (hd post)"
    by blast
  from run_takeWhile(1) [OF x(2) post] x(1) show "match_token mark s = Some x"
    by (simp add: match_token_def s)
qed

lemma skip_quote_decomp: "\<exists>q. opt_quote q \<and> xs = q @ skip_quote xs"
proof (cases xs)
  case Nil
  then show ?thesis by (simp add: opt_quote_def)
next
  case (Cons c cs)
  show ?thesis
  proof (cases "is_quote c")
    case True
    then have "opt_quote [c] \<and> xs = [c] @ skip_quote xs"
      by (auto simp: Cons opt_quote_def is_quote_def)
    then show ?thesis by blast
  next
    case False
    then have "opt_quote [] \<and> xs = [] @ skip_quote xs"
      by (simp add: Cons opt_quote_def)
    then show ?thesis by blast
  qed
qed

lemma skip_quote_append:
  assumes "opt_quote q" "ys \<noteq> []" "\<not> is_quote (hd ys)"
  shows "skip_quote (q @ ys) = ys"
  using assms by (cases ys) (auto simp: opt_quote_def is_quote_def)

lemma match_data_complete:
  assumes s: "s = ''[data-'' @ k @ ''='' @ q1 @ v @ q2 @ '']'' @ post"
    and k: "k \<noteq> []" "CHR ''='' \<notin> set k"
    and q: "opt_quote q1" "opt_quote q2"
    and v: "v \<noteq> []" "list_all is_value v"
  shows "match_data s = Some v"
proof -
  let ?ne = "\<lambda>c. c \<noteq> CHR ''=''"
  let ?t = "CHR '']'' # post"
  let ?r = "k @ CHR ''='' # q1 @ v @ q2 @ ?t"
  have t6: "take 6 s = ''[data-''" and d6: "drop 6 s = ?r"
    by (simp_all add: s)
  have kk: "list_all ?ne k"
    using k(2) by (auto simp: list_all_iff)
  have tk: "takeWhile ?ne ?r = k" and dk: "dropWhile ?ne ?r = CHR ''='' # q1 @ v @ q2 @ ?t"
    using run_takeWhile [OF kk, of "CHR ''='' # q1 @ v @ q2 @ ?t"] by simp_all
  have hv: "\<not> is_quote (hd (v @ q2 @ ?t))"
    using v by (cases v) (auto simp: is_value_def)
  have r2: "skip_quote (q1 @ v @ q2 @ ?t) = v @ q2 @ ?t"
    using skip_quote_append [OF q(1) _ hv] v(1) by simp
  have nv: "\<not> is_value (hd (q2 @ ?t))"
    using q(2) by (auto simp: opt_quote_def is_value_def is_quote_def)
  have tv: "takeWhile is_value (v @ q2 @ ?t) = v"
    and dv: "dropWhile is_value (v @ q2 @ ?t) = q2 @ ?t"
    using run_takeWhile [OF v(2), of "q2 @ ?t"] nv by simp_all
  have r3: "skip_quote (q2 @ ?t) = ?t"
    using skip_quote_append [OF q(2), of ?t] by (simp add: is_quote_def)
  have tl: "tl (CHR ''='' # q1 @ v @ q2 @ ?t) = q1 @ v @ q2 @ ?t"
    by simp
  show ?thesis
    unfolding match_data_def Let_def t6 d6 tk dk tl r2 tv dv r3
    using k(1) v(1) by simp
qed

lemma match_data_sound:
  assumes "match_data s = Some v"
  shows "\<exists>k q1 q2 post.
          s = ''[data-'' @ k @ ''='' @ q1 @ v @ q2 @ '']'' @ post
          \<and> k \<noteq> [] \<and> CHR ''='' \<notin> set k \<and> opt_quote q1 \<and> opt_quote q2
          \<and> v \<noteq> [] \<and> list_all is_value v"
proof -
  let ?ne = "\<lambda>c. c \<noteq> CHR ''=''"
  define r where "r = drop 6 s"
  define k where "k = takeWhile ?ne r"
  define r1 where "r1 = dropWhile ?ne r"
  define r2 where "r2 = skip_quote (tl r1)"
  define d where "d = dropWhile is_value r2"
  define r3 where "r3 = skip_quote d"
  from assms have t6: "take 6 s = ''[data-''" and k: "k \<noteq> []" and r1: "r1 \<noteq> []"
    and v: "v = takeWhile is_value r2" "v \<noteq> []" and r3: "take 1 r3 = '']''"
    unfolding match_data_def Let_def r_def k_def r1_def r2_def d_def r3_def
    by (auto split: if_splits)
  have s: "s = ''[data-'' @ r"
    using append_take_drop_id [of 6 s] t6 r_def by simp
  have r: "r = k @ r1"
    by (simp add: k_def r1_def)
  have "hd r1 = CHR ''=''"
    using hd_dropWhile [of ?ne r] r1 by (simp add: r1_def)
  with r1 have r1': "r1 = ''='' @ tl r1"
    by (cases r1) simp_all
  obtain q1 where q1: "opt_quote q1" "tl r1 = q1 @ r2"
    using skip_quote_decomp [of "tl r1"] r2_def by blast
  have r2: "r2 = v @ d"
    by (simp add: v d_def)
  obtain q2 where q2: "opt_quote q2" "d = q2 @ r3"
    using skip_quote_decomp [of d] r3_def by blast
  from r3 have r3': "r3 = '']'' @ tl r3"
    by (cases r3) simp_all
  have keq: "CHR ''='' \<notin> set k"
    using set_takeWhileD [of "CHR ''=''" ?ne r] by (auto simp: k_def)
  have vall: "list_all is_value v"
    using takeWhile_run [of is_value r2] by (simp add: v)
  have "s = ''[data-'' @ k @ ''='' @ q1 @ v @ q2 @ '']'' @ tl r3"
    using s r r1' q1(2) r2 q2(2) r3' by (metis append_assoc)
  with k keq q1(1) q2(1) v(2) vall show ?thesis by blast
qed

lemma match_data_iff:
  "match_data s = Some v \<longleftrightarrow>
     (\<exists>k q1 q2 post.
          s = ''[data-'' @ k @ ''='' @ q1 @ v @ q2 @ '']'' @ post
          \<and> k \<noteq> [] \<and> CHR ''='' \<notin> set k \<and> opt_quote q1 \<and> opt_quote q2
          \<and> v \<noteq> [] \<and> list_all is_value v)"
  using match_data_sound [of s v] match_data_complete [of s _ _ v] by blast

lemma token_at_iff:
  "token_at mark s i x \<longleftrightarrow> i \<le> length s \<and> match_token mark (drop i s) = Some x"
  by (simp add: token_at_def match_token_iff)

lemma data_attr_at_iff:
  "data_attr_at s i v \<longleftrightarrow> i \<le> length s \<and> match_data (drop i s) = Some v"
  by (simp add: data_attr_at_def match_data_iff)

lemma first_at_search:
  assumes occ: "\<And>i x. occurs i x \<longleftrightarrow> i \<le> length s \<and> m (drop i s) = Some x"
  shows "first_at occurs x \<longleftrightarrow> search m s = Some x"
proof
  assume "first_at occurs x"
  then obtain i where i: "occurs i x" and least: "\<forall>j y. occurs j y \<longrightarrow> i \<le> j"
    by (auto simp: first_at_def)
  have "\<forall>j<i. m (drop j s) = None"
  proof (intro allI impI)
    fix j assume j: "j < i"
    show "m (drop j s) = None"
    proof (cases "m (drop j s)")
      case None
      then show ?thesis .
    next
      case (Some y)
      with i j occ have "occurs j y" by simp
      with least j show ?thesis by fastforce
    qed
  qed
  with i occ show "search m s = Some x"
    unfolding search_Some_iff by blast
next
  assume "search m s = Some x"
  then obtain i where i: "i \<le> length s" "m (drop i s) = Some x" "\<forall>j<i. m (drop j s) = None"
    unfolding search_Some_iff by blast
  have "\<forall>j y. occurs j y \<longrightarrow> i \<le> j"
  proof (intro allI impI)
    fix j y assume "occurs j y"
    with occ have "m (drop j s) = Some y" by simp
    with i(3) show "i \<le> j" by (cases "j < i") auto
  qed
  with i occ show "first_at occurs x"
    unfolding first_at_def by blast
qed

lemma nowhere_search:
  assumes occ: "\<And>i x. occurs i x \<longleftrightarrow> i \<le> length s \<and> m (drop i s) = Some x"
  shows "nowhere occurs \<longleftrightarrow> search m s = None"
  unfolding nowhere_def search_None_iff occ by auto

lemmas first_token_search = first_at_search [of "token_at mark s" s "match_token mark", OF token_at_iff] for mark s
lemmas no_token_search = nowhere_search [of "token_at mark s" s "match_token mark", OF token_at_iff] for mark s
lemmas first_data_search = first_at_search [of "data_attr_at s" s match_data, OF data_attr_at_iff] for s
lemmas no_data_search = nowhere_search [of "data_attr_at s" s match_data, OF data_attr_at_iff] for s


section \<open>Single-quoted literals of the generated code\<close>

























section \<open>The content of the page object and of the run configuration\<close>


lemma collectSelectors_keys:
  "(key, sel) \<in> set (collectSelectors acts m) \<Longrightarrow>
     (key, sel) \<in> set m
     \<or> (\<exists>a\<in>set acts. get (parameters a) ''selector'' = JStr sel \<and> sel \<noteq> []
           \<and> key = deriveLocatorName sel)"
proof (induction acts arbitrary: m)
  case Nil
  then show ?case by simp
next
  case (Cons a acts)
  show ?case
  proof (cases "get (parameters a) ''selector''")
    case (JStr x)
    show ?thesis
    proof (cases "x \<noteq> [] \<and> map_of m (deriveLocatorName x) = None")
      case True
      with Cons.prems JStr
      have "(key, sel) \<in> set (collectSelectors acts (m @ [(deriveLocatorName x, x)]))"
        by simp
      from Cons.IH [OF this] JStr True show ?thesis by auto
    next
      case False
      with Cons.prems JStr have "(key, sel) \<in> set (collectSelectors acts m)"
        by (auto split: if_splits)
      from Cons.IH [OF this] show ?thesis by auto
    qed
  qed (use Cons in auto)
qed







section \<open>Reading the generated code into tokens\<close>
































section \<open>Deriving the generated code in the grammar\<close>













lemma stmts_one: "stmt ts d r0 \<Longrightarrow> stmts r0 ds r \<Longrightarrow> stmts ts (d @ ds) r"
  by (rule stmts_more)
















section \<open>The test code of a session with plain values\<close>



section \<open>Unrecognized actions\<close>

text \<open>
  Claim C3. An action whose tool name is not one of the nine recognized names is
  converted to no step, and the steps of the test case are the steps of the recognized
  actions, in order. Such an action does not make \<open>generateTest\<close> fail: whether
  \<open>generateTest\<close> returns does not change when the unrecognized actions are
  removed from the session, and the test code it returns is the same.
\<close>

theorem C3_unrecognized_actions_skipped:
  "(\<not> recognized a \<longrightarrow> convertActionToStep a = None)
   \<and> (recognized a \<longrightarrow> convertActionToStep a \<noteq> None)
   \<and> (createTestCase g s acts = Inr tc \<longrightarrow>
         steps tc = map (\<lambda>a. the (convertActionToStep a)) (filter recognized acts))
   \<and> (generateTest g (Some (s\<lparr>actions := Some acts\<rparr>)) = Inr r \<longrightarrow>
         (\<exists>r'. generateTest g (Some (s\<lparr>actions := Some (filter recognized acts)\<rparr>)) = Inr r'
               \<and> testCode r' = testCode r))
   \<and> (generateTest g (Some (s\<lparr>actions := Some (filter recognized acts)\<rparr>)) = Inr r \<longrightarrow>
         (\<exists>r'. generateTest g (Some (s\<lparr>actions := Some acts\<rparr>)) = Inr r'
               \<and> testCode r' = testCode r))"
proof -
  have steps_eq: "steps tc = map (\<lambda>a. the (convertActionToStep a)) (filter recognized acts)"
    if "createTestCase g s acts = Inr tc"
    using that by (auto simp: createTestCase_def collectSteps_recognized split: sum.splits)
  have same: "\<exists>r'. generateTest g (Some (s\<lparr>actions := Some bs\<rparr>)) = Inr r' \<and> testCode r' = testCode r"
    if r: "generateTest g (Some (s\<lparr>actions := Some as\<rparr>)) = Inr r"
      and eq: "collectSteps bs = collectSteps as" for as bs r
  proof -
    let ?sa = "s\<lparr>actions := Some as\<rparr>" and ?sb = "s\<lparr>actions := Some bs\<rparr>"
    from r have ok: "valid_session ?sa \<and> is_string (get (options g) ''outputPath'')
        \<and> is_string (get (options g) ''testNamePrefix'')"
      using generateTest_returns_iff [of g ?sa] by blast
    then obtain out pfx where out: "get (options g) ''outputPath'' = JStr out"
      and pfx: "get (options g) ''testNamePrefix'' = JStr pfx"
      by (auto simp: is_string_iff)
    from ok have sid: "truthy (session_id ?sa)" "truthy (session_id ?sb)"
      and tm: "valid_time (startTime ?sa)" "valid_time (startTime ?sb)"
      by (simp_all add: valid_session_def)
    from generateTest_valid [OF out pfx _ sid(1) tm(1), of as] r
    obtain tca where tca: "createTestCase g ?sa as = Inr tca"
      and ca: "testCode r = (if get (options g) ''template'' = JStr ''pom''
                            then generatePomTestCode g tca else generateTestCode tca)"
      by auto
    from generateTest_valid [OF out pfx _ sid(2) tm(2), of bs]
    obtain r' tcb where r': "generateTest g (Some ?sb) = Inr r'"
      and tcb: "createTestCase g ?sb bs = Inr tcb"
      and cb: "testCode r' = (if get (options g) ''template'' = JStr ''pom''
                             then generatePomTestCode g tcb else generateTestCode tcb)"
      by auto
    from tca tcb eq have "tcb = tca"
      by (auto simp: createTestCase_def split: sum.splits)
    with ca cb r' show ?thesis by simp
  qed
  show ?thesis
    using convert_unrecognized [of a] convert_recognized [of a] steps_eq
      same [of acts r "filter recognized acts"] same [of "filter recognized acts" r acts]
    by (auto simp: collectSteps_filter)
qed

theorem C3_unrecognized_actions_skipped_witness:
  "convertActionToStep \<lparr>toolName = ''playwright_drag'', parameters = Map.empty\<rparr> = None
   \<and> convertActionToStep \<lparr>toolName = ''playwright_click'',
                           parameters = [''selector'' \<mapsto> JStr ''#go'']\<rparr> \<noteq> None
   \<and> (\<exists>tc. createTestCase \<lparr>options = DEFAULT_OPTIONS\<rparr>
              \<lparr>session_id = JStr ''s1'', startTime = Some 0, actions = None\<rparr>
              [\<lparr>toolName = ''playwright_drag'', parameters = Map.empty\<rparr>,
               \<lparr>toolName = ''playwright_click'', parameters = [''selector'' \<mapsto> JStr ''#go'']\<rparr>]
            = Inr tc
         \<and> steps tc = [''\<newline>    // Click element\<newline>    await page.click('#go');''])
   \<and> (\<exists>r r'. generateTest \<lparr>options = DEFAULT_OPTIONS\<rparr>
                (Some \<lparr>session_id = JStr ''s1'', startTime = Some 0,
                       actions = Some [\<lparr>toolName = ''playwright_drag'', parameters = Map.empty\<rparr>]\<rparr>)
              = Inr r
            \<and> generateTest \<lparr>options = DEFAULT_OPTIONS\<rparr>
                (Some \<lparr>session_id = JStr ''s1'', startTime = Some 0, actions = Some []\<rparr>)
              = Inr r'
            \<and> testCode r' = testCode r)
   \<and> (\<exists>r r'. generateTest \<lparr>options = DEFAULT_OPTIONS\<rparr>
                (Some \<lparr>session_id = JStr ''s1'', startTime = Some 0, actions = Some []\<rparr>)
              = Inr r
            \<and> generateTest \<lparr>options = DEFAULT_OPTIONS\<rparr>
                (Some \<lparr>session_id = JStr ''s1'', startTime = Some 0,
                       actions = Some [\<lparr>toolName = ''playwright_drag'', parameters = Map.empty\<rparr>]\<rparr>)
              = Inr r'
            \<and> testCode r' = testCode r)"
proof -
  let ?g = "\<lparr>options = DEFAULT_OPTIONS\<rparr>"
  let ?s = "\<lparr>session_id = JStr ''s1'', startTime = Some 0, actions = None\<rparr>"
  let ?drag = "\<lparr>toolName = ''playwright_drag'', parameters = Map.empty\<rparr>"
  let ?click = "\<lparr>toolName = ''playwright_click'', parameters = [''selector'' \<mapsto> JStr ''#go'']\<rparr>"
  have n1: "\<not> recognized ?drag" by code_simp
  have n2: "recognized ?click" by code_simp
  obtain day where "isoDate (startTime ?s) = Inr day"
    using isoDate_valid [of "startTime ?s"] by (auto simp: valid_time_def)
  then obtain tc where tc: "createTestCase ?g ?s [?drag, ?click] = Inr tc"
    by (simp add: createTestCase_def)
  have st: "map (\<lambda>a. the (convertActionToStep a)) (filter recognized [?drag, ?click])
      = [''\<newline>    // Click element\<newline>    await page.click('#go');'']"
    by code_simp
  have out: "get (options ?g) ''outputPath'' = JStr ''tests''" by code_simp
  have pfx: "get (options ?g) ''testNamePrefix'' = JStr ''MCP''" by code_simp
  obtain r where r: "generateTest ?g (Some (?s\<lparr>actions := Some [?drag]\<rparr>)) = Inr r"
    using generateTest_valid [OF out pfx, of "?s\<lparr>actions := Some [?drag]\<rparr>" "[?drag]"]
    by (auto simp: valid_time_def)
  have f: "filter recognized [?drag] = []"
    using n1 by simp
  note thm1 = C3_unrecognized_actions_skipped [of ?drag ?g ?s "[?drag, ?click]" tc r]
  note thm2 = C3_unrecognized_actions_skipped [of ?click ?g ?s "[?drag]" tc r]
  from thm1 n1 have a: "convertActionToStep ?drag = None" by blast
  from thm2 n2 have b: "convertActionToStep ?click \<noteq> None" by blast
  from thm1 tc st have c: "steps tc = [''\<newline>    // Click element\<newline>    await page.click('#go');'']"
    by simp
  from thm2 r f obtain r' where r': "generateTest ?g (Some (?s\<lparr>actions := Some []\<rparr>)) = Inr r'"
    "testCode r' = testCode r"
    by auto
  note thm3 = C3_unrecognized_actions_skipped [of ?drag ?g ?s "[?drag]" tc r']
  from thm3 r'(1) f obtain r'' where r'': "generateTest ?g (Some (?s\<lparr>actions := Some [?drag]\<rparr>)) = Inr r''"
    "testCode r'' = testCode r'"
    by auto
  have d: "\<exists>r r'. generateTest ?g (Some (?s\<lparr>actions := Some [?drag]\<rparr>)) = Inr r
      \<and> generateTest ?g (Some (?s\<lparr>actions := Some []\<rparr>)) = Inr r' \<and> testCode r' = testCode r"
    using r r' by blast
  have e: "\<exists>r r'. generateTest ?g (Some (?s\<lparr>actions := Some []\<rparr>)) = Inr r
      \<and> generateTest ?g (Some (?s\<lparr>actions := Some [?drag]\<rparr>)) = Inr r' \<and> testCode r' = testCode r"
    using r'(1) r'' by blast
  from a b c tc d e show ?thesis by auto
qed


section \<open>Invalid options and malformed sessions\<close>

text \<open>
  Claim C4, as amended. The constructor raises an error with one of the five messages of
  its checks for every options object in which \<open>outputPath\<close> or \<open>testNamePrefix\<close> is
  truthy and not a string, \<open>includeComments\<close> is defined and not a boolean,
  \<open>language\<close> is defined and neither \<open>'typescript'\<close> nor \<open>'javascript'\<close>, or
  \<open>template\<close> is defined and neither \<open>'plain'\<close> nor \<open>'pom'\<close>; it accepts every
  other options object. \<open>generateTest\<close> fails with \<open>Invalid session data\<close> for a
  session that is null or undefined or whose actions are not an array. It fails for
  every session whose id is missing or falsy, and the error is
  \<open>Session ID is required\<close> when the start time is a valid date and, in the page-object
  template, the output path is a string.
\<close>

theorem C4_invalid_input_rejected:
  "(ill_typed opts \<longrightarrow>
      (\<exists>m. new_PlaywrightGenerator opts = Inl (Error m) \<and> m \<in> set option_messages))
   \<and> (\<not> ill_typed opts \<longrightarrow> (\<exists>g. new_PlaywrightGenerator opts = Inr g))
   \<and> generateTest g None = Inl (Error ''Invalid session data'')
   \<and> (actions s = None \<longrightarrow> generateTest g (Some s) = Inl (Error ''Invalid session data''))
   \<and> (\<not> truthy (session_id s) \<longrightarrow> (\<exists>e. generateTest g (Some s) = Inl e))
   \<and> (\<not> truthy (session_id s) \<and> actions s \<noteq> None \<and> valid_time (startTime s)
        \<and> (get (options g) ''template'' = JStr ''pom'' \<longrightarrow>
               is_string (get (options g) ''outputPath'')) \<longrightarrow>
          generateTest g (Some s) = Inl (Error ''Session ID is required''))"
proof -
  have a: "ill_typed opts \<longrightarrow>
      (\<exists>m. new_PlaywrightGenerator opts = Inl (Error m) \<and> m \<in> set option_messages)"
    using validateOptions_ill_typed [of opts] by (auto simp: new_PlaywrightGenerator_def)
  have b: "\<not> ill_typed opts \<longrightarrow> (\<exists>g. new_PlaywrightGenerator opts = Inr g)"
    using validateOptions_well_typed [of opts] by (auto simp: new_PlaywrightGenerator_def)
  have c: "generateTest g None = Inl (Error ''Invalid session data'')"
    by (simp add: generateTest_def)
  have d: "actions s = None \<longrightarrow> generateTest g (Some s) = Inl (Error ''Invalid session data'')"
    by (simp add: generateTest_def)
  have e: "\<not> truthy (session_id s) \<longrightarrow> (\<exists>e. generateTest g (Some s) = Inl e)"
  proof
    assume "\<not> truthy (session_id s)"
    then have "\<not> (\<exists>r. generateTest g (Some s) = Inr r)"
      by (simp add: generateTest_returns_iff valid_session_def)
    then show "\<exists>e. generateTest g (Some s) = Inl e"
      by (cases "generateTest g (Some s)") auto
  qed
  have f: "\<not> truthy (session_id s) \<and> actions s \<noteq> None \<and> valid_time (startTime s)
        \<and> (get (options g) ''template'' = JStr ''pom'' \<longrightarrow>
               is_string (get (options g) ''outputPath'')) \<longrightarrow>
          generateTest g (Some s) = Inl (Error ''Session ID is required'')"
  proof
    assume h: "\<not> truthy (session_id s) \<and> actions s \<noteq> None \<and> valid_time (startTime s)
        \<and> (get (options g) ''template'' = JStr ''pom'' \<longrightarrow>
               is_string (get (options g) ''outputPath''))"
    then obtain acts where acts: "actions s = Some acts"
      by auto
    obtain day where day: "isoDate (startTime s) = Inr day"
      using isoDate_valid [of "startTime s"] h by blast
    have fp: "getOutputFilePath g s = Inl (Error ''Session ID is required'')"
      using h by (simp add: getOutputFilePath_def)
    show "generateTest g (Some s) = Inl (Error ''Session ID is required'')"
    proof (cases "get (options g) ''template'' = JStr ''pom''")
      case True
      with h obtain out where out: "get (options g) ''outputPath'' = JStr out"
        by (auto simp: is_string_iff)
      obtain t1 where po: "generatePageObject g acts =
        Inr \<lparr>path = PathResolve (filter (\<lambda>s. s \<noteq> []) [out, ''pages'', ''AppPage.'' @ ext_of g]),
             content = t1\<rparr>"
        using generatePageObject_string [OF out] by blast
      show ?thesis
        unfolding generateTest_def createTestCase_def Let_def
        by (simp add: acts day po fp)
    next
      case False
      then show ?thesis
        unfolding generateTest_def createTestCase_def Let_def
        by (simp add: acts day fp)
    qed
  qed
  from a b c d e f show ?thesis by blast
qed


theorem C4_invalid_input_rejected_witness:
  "(\<exists>m. new_PlaywrightGenerator [''outputPath'' \<mapsto> JOther ''42'' True] = Inl (Error m)
        \<and> m \<in> set option_messages)
   \<and> (\<exists>g. new_PlaywrightGenerator [''outputPath'' \<mapsto> JStr ''out''] = Inr g)
   \<and> generateTest \<lparr>options = DEFAULT_OPTIONS\<rparr>
         (Some \<lparr>session_id = JStr ''s1'', startTime = Some 0, actions = None\<rparr>)
       = Inl (Error ''Invalid session data'')
   \<and> generateTest \<lparr>options = DEFAULT_OPTIONS\<rparr>
         (Some \<lparr>session_id = JUndefined, startTime = Some 0, actions = Some []\<rparr>)
       = Inl (Error ''Session ID is required'')"
  using C4_invalid_input_rejected [of "[''outputPath'' \<mapsto> JOther ''42'' True]" "\<lparr>options = DEFAULT_OPTIONS\<rparr>"
          "\<lparr>session_id = JStr ''s1'', startTime = Some 0, actions = None\<rparr>"]
        C4_invalid_input_rejected [of "[''outputPath'' \<mapsto> JStr ''out'']" "\<lparr>options = DEFAULT_OPTIONS\<rparr>"
          "\<lparr>session_id = JUndefined, startTime = Some 0, actions = Some []\<rparr>"]
  by (simp add: ill_typed_def get_def valid_time_def DEFAULT_OPTIONS_def)

text \<open>
  The claim as first stated fails: an \<open>outputPath\<close> that is not a string but falsy
  (here \<open>false\<close>) passes the constructor and replaces the default.
\<close>

theorem C4_falsy_outputPath_accepted:
  "new_PlaywrightGenerator [''outputPath'' \<mapsto> JBool False]
     = Inr \<lparr>options = DEFAULT_OPTIONS ++ [''outputPath'' \<mapsto> JBool False]\<rparr>"
  by (simp add: new_PlaywrightGenerator_def validateOptions_def get_def)

section \<open>The path of the test file\<close>

text \<open>
  Claim C8. For a valid session (its id truthy, so for a string not empty) and options
  whose output path and name prefix are strings, \<open>generateTest\<close> returns, and the file
  path it returns is \<open>path.resolve(outputPath, p + '_' + id + '.spec.ts')\<close>, where
  \<open>p\<close> has the length of the prefix and at each position the lower-cased character of
  the prefix if that is in \<open>[a-z0-9_]\<close> and an underscore otherwise. The language
  option is not a premise: the extension is \<open>.spec.ts\<close> for both languages.
\<close>

theorem C8_output_file_path:
  assumes out: "get (options g) ''outputPath'' = JStr out"
    and pfx: "get (options g) ''testNamePrefix'' = JStr pfx"
    and valid: "valid_session s"
  shows "\<exists>r. generateTest g (Some s) = Inr r
           \<and> path_resolve [JStr out, JStr (sanitize (toLowerCase pfx) @ ''_''
                              @ toStr (session_id s) @ ''.spec.ts'')]
               = Inr (filePath r)
           \<and> length (sanitize (toLowerCase pfx)) = length pfx
           \<and> (\<forall>i<length pfx.
                 sanitize (toLowerCase pfx) ! i =
                   (if toLowerCase_char (pfx ! i) \<in> set ''abcdefghijklmnopqrstuvwxyz0123456789_''
                    then toLowerCase_char (pfx ! i) else CHR ''_''))"
proof -
  from valid obtain acts where acts: "actions s = Some acts"
    and sid: "truthy (session_id s)" and tm: "valid_time (startTime s)"
    by (auto simp: valid_session_def)
  from generateTest_valid [OF out pfx acts sid tm] obtain r
    where r: "generateTest g (Some s) = Inr r"
      and fp: "filePath r = PathResolve (filter (\<lambda>s. s \<noteq> [])
                  [out, sanitize (toLowerCase pfx) @ ''_'' @ toStr (session_id s) @ ''.spec.ts''])"
    by blast
  have len: "length (sanitize (toLowerCase pfx)) = length pfx"
    by (simp add: sanitize_def toLowerCase_def)
  have nth: "\<forall>i<length pfx.
                 sanitize (toLowerCase pfx) ! i =
                   (if toLowerCase_char (pfx ! i) \<in> set ''abcdefghijklmnopqrstuvwxyz0123456789_''
                    then toLowerCase_char (pfx ! i) else CHR ''_'')"
    using sanitize_nth [of _ "toLowerCase pfx"] by (simp add: toLowerCase_def)
  have "path_resolve [JStr out, JStr (sanitize (toLowerCase pfx) @ ''_''
                              @ toStr (session_id s) @ ''.spec.ts'')]
               = Inr (filePath r)"
    unfolding path_resolve2 fp ..
  with r len nth show ?thesis by blast
qed

theorem C8_output_file_path_witness:
  "\<exists>r. generateTest \<lparr>options = DEFAULT_OPTIONS(''language'' \<mapsto> JStr ''javascript'',
                                                    ''testNamePrefix'' \<mapsto> JStr ''My Test'')\<rparr>
            (Some \<lparr>session_id = JStr ''abc'', startTime = Some 1700000000000, actions = Some []\<rparr>)
          = Inr r
      \<and> filePath r = PathResolve [''tests'', ''my_test_abc.spec.ts'']"
proof -
  let ?g = "\<lparr>options = DEFAULT_OPTIONS(''language'' \<mapsto> JStr ''javascript'',
                                        ''testNamePrefix'' \<mapsto> JStr ''My Test'')\<rparr>"
  let ?s = "\<lparr>session_id = JStr ''abc'', startTime = Some 1700000000000, actions = Some []\<rparr>"
  have out: "get (options ?g) ''outputPath'' = JStr ''tests''" by code_simp
  have pfx: "get (options ?g) ''testNamePrefix'' = JStr ''My Test''" by code_simp
  have valid: "valid_session ?s" by code_simp
  have res: "path_resolve [JStr ''tests'', JStr (sanitize (toLowerCase ''My Test'') @ ''_''
                                 @ toStr (session_id ?s) @ ''.spec.ts'')]
      = Inr (PathResolve [''tests'', ''my_test_abc.spec.ts''])"
    by code_simp
  from C8_output_file_path [OF out pfx valid] res show ?thesis
    by auto
qed

section \<open>The files of the two templates\<close>





section \<open>Empty strings as options\<close>

text \<open>
  Claim C10. An options object whose \<open>outputPath\<close> or \<open>testNamePrefix\<close> is the empty
  string is validated as if the field were absent, so the empty string itself is never
  the reason for an error. When the constructor accepts the object, the empty string is
  the effective option in place of the default. With the output path \<open>''\<close> every path
  that \<open>generateTest\<close> returns is resolved against the empty path: the test file, the
  page object and the run configuration.
\<close>

theorem C10_empty_string_option:
  assumes k: "k = ''outputPath'' \<or> k = ''testNamePrefix''"
    and empty: "opts k = Some (JStr [])"
  shows "validateOptions opts = validateOptions (opts(k := None))
       \<and> (new_PlaywrightGenerator opts = Inr g \<longrightarrow> get (options g) k = JStr [])
       \<and> (new_PlaywrightGenerator opts = Inr g \<and> k = ''outputPath''
            \<and> generateTest g (Some s) = Inr r \<longrightarrow>
              (\<exists>pfx. get (options g) ''testNamePrefix'' = JStr pfx
                 \<and> path_resolve [JStr [], JStr (sanitize (toLowerCase pfx) @ ''_''
                                    @ toStr (session_id s) @ ''.spec.ts'')] = Inr (filePath r))
              \<and> (get (options g) ''template'' = JStr ''pom'' \<longrightarrow>
                   (\<exists>po cfg. files r = Some [po, cfg]
                      \<and> path_resolve [JStr [], JStr ''pages'', JStr (''AppPage.'' @ ext_of g)]
                          = Inr (path po)
                      \<and> path_resolve [JStr [], JStr (''playwright.config.'' @ ext_of g)]
                          = Inr (path cfg))))"
proof -
  have 1: "validateOptions opts = validateOptions (opts(k := None))"
    using k empty validate_empty_outputPath [of opts] validate_empty_prefix [of opts] by blast
  have 2: "get (options g) k = JStr []" if "new_PlaywrightGenerator opts = Inr g"
    using new_options [OF that] empty by (simp add: get_merged)
  have 3: "(\<exists>pfx. get (options g) ''testNamePrefix'' = JStr pfx
                 \<and> path_resolve [JStr [], JStr (sanitize (toLowerCase pfx) @ ''_''
                                    @ toStr (session_id s) @ ''.spec.ts'')] = Inr (filePath r))
              \<and> (get (options g) ''template'' = JStr ''pom'' \<longrightarrow>
                   (\<exists>po cfg. files r = Some [po, cfg]
                      \<and> path_resolve [JStr [], JStr ''pages'', JStr (''AppPage.'' @ ext_of g)]
                          = Inr (path po)
                      \<and> path_resolve [JStr [], JStr (''playwright.config.'' @ ext_of g)]
                          = Inr (path cfg)))"
    if new: "new_PlaywrightGenerator opts = Inr g" and kk: "k = ''outputPath''"
      and r: "generateTest g (Some s) = Inr r"
  proof -
    from 2 [OF new] kk have out: "get (options g) ''outputPath'' = JStr []" by simp
    from r have "valid_session s \<and> is_string (get (options g) ''testNamePrefix'')"
      using generateTest_returns_iff [of g s] by blast
    then obtain pfx acts where pfx: "get (options g) ''testNamePrefix'' = JStr pfx"
      and acts: "actions s = Some acts" and sid: "truthy (session_id s)"
      and tm: "valid_time (startTime s)"
      by (auto simp: valid_session_def is_string_iff)
    from generateTest_valid [OF out pfx acts sid tm] r
    have fp: "filePath r = PathResolve (filter (\<lambda>s. s \<noteq> [])
                  [[], sanitize (toLowerCase pfx) @ ''_'' @ toStr (session_id s) @ ''.spec.ts''])"
      and pom: "get (options g) ''template'' = JStr ''pom'' \<longrightarrow>
                (\<exists>po cfg. files r = Some [po, cfg] \<and> generatePageObject g acts = Inr po
                    \<and> generatePlaywrightConfig g = Inr cfg)"
      by auto
    have a: "path_resolve [JStr [], JStr (sanitize (toLowerCase pfx) @ ''_''
                 @ toStr (session_id s) @ ''.spec.ts'')] = Inr (filePath r)"
      unfolding path_resolve2 fp ..
    have b: "path_resolve [JStr [], JStr ''pages'', JStr (''AppPage.'' @ ext_of g)] = Inr (path po)"
      if "generatePageObject g acts = Inr po" for po
      using that generatePageObject_string [OF out, of acts] by (auto simp: path_resolve3)
    have c: "path_resolve [JStr [], JStr (''playwright.config.'' @ ext_of g)] = Inr (path cfg)"
      if "generatePlaywrightConfig g = Inr cfg" for cfg
      using that generatePlaywrightConfig_string [OF out] by (auto simp: path_resolve2)
    from pfx a b c pom show ?thesis by blast
  qed
  from 1 2 3 show ?thesis by blast
qed

theorem C10_empty_string_option_witness:
  "validateOptions [''outputPath'' \<mapsto> JStr []] = Inr ()
   \<and> validateOptions [''testNamePrefix'' \<mapsto> JStr []] = Inr ()
   \<and> (\<exists>g r po cfg.
         new_PlaywrightGenerator [''outputPath'' \<mapsto> JStr []] = Inr g
         \<and> get (options g) ''outputPath'' = JStr []
         \<and> generateTest g
             (Some \<lparr>session_id = JStr ''s1'', startTime = Some 0, actions = Some []\<rparr>) = Inr r
         \<and> filePath r = PathResolve [''mcp_s1.spec.ts'']
         \<and> files r = Some [po, cfg]
         \<and> path po = PathResolve [''pages'', ''AppPage.ts'']
         \<and> path cfg = PathResolve [''playwright.config.ts''])
   \<and> (\<exists>g. new_PlaywrightGenerator [''testNamePrefix'' \<mapsto> JStr []] = Inr g
         \<and> get (options g) ''testNamePrefix'' = JStr [])"
proof -
  let ?o1 = "[''outputPath'' \<mapsto> JStr []] :: jsobj"
  let ?o2 = "[''testNamePrefix'' \<mapsto> JStr []] :: jsobj"
  let ?s = "\<lparr>session_id = JStr ''s1'', startTime = Some 0, actions = Some []\<rparr>"
  have e1: "?o1 ''outputPath'' = Some (JStr [])" and e2: "?o2 ''testNamePrefix'' = Some (JStr [])"
    by simp_all
  have v0: "validateOptions (?o1(''outputPath'' := None)) = Inr ()"
    "validateOptions (?o2(''testNamePrefix'' := None)) = Inr ()"
    by (simp_all add: validateOptions_def get_def)
  obtain g1 where g1: "new_PlaywrightGenerator ?o1 = Inr g1"
    by (simp add: new_PlaywrightGenerator_def validateOptions_def get_def)
  obtain g2 where g2: "new_PlaywrightGenerator ?o2 = Inr g2"
    by (simp add: new_PlaywrightGenerator_def validateOptions_def get_def)
  have og: "options g1 = DEFAULT_OPTIONS ++ ?o1"
    using new_options [OF g1] .
  have out: "get (options g1) ''outputPath'' = JStr []"
    and pfx: "get (options g1) ''testNamePrefix'' = JStr ''MCP''"
    and tmpl: "get (options g1) ''template'' = JStr ''pom''"
    and ext: "ext_of g1 = ''ts''"
    unfolding og ext_of_def by (simp_all add: get_merged get_def DEFAULT_OPTIONS_def)
  obtain r where r: "generateTest g1 (Some ?s) = Inr r"
    using generateTest_valid [OF out pfx, of ?s "[]"] by (auto simp: valid_time_def)
  have nm: "sanitize (toLowerCase ''MCP'') = ''mcp''" by code_simp
  note a = C10_empty_string_option [of "''outputPath''" ?o1 g1 ?s r, OF _ e1]
  note b = C10_empty_string_option [of "''testNamePrefix''" ?o2 g2 ?s r, OF _ e2]
  from a v0 have w1: "validateOptions ?o1 = Inr ()" by simp
  from b v0 have w2: "validateOptions ?o2 = Inr ()" by simp
  from b g2 have w4: "get (options g2) ''testNamePrefix'' = JStr []" by simp
  from a g1 r pfx tmpl ext nm
  have w3: "\<exists>po cfg. filePath r = PathResolve [''mcp_s1.spec.ts'']
         \<and> files r = Some [po, cfg]
         \<and> path po = PathResolve [''pages'', ''AppPage.ts'']
         \<and> path cfg = PathResolve [''playwright.config.ts'']"
    by (auto simp: path_resolve2 path_resolve3)
  from w1 w2 w3 w4 g1 g2 out r show ?thesis by blast
qed


section \<open>The step of a recognized action\<close>




section \<open>Locator names\<close>

text \<open>
  Claim C9. The locator name of a selector follows the first rule that applies, in this
  order: when the selector has an id token, the name is the word of its first id token
  followed by \<open>Locator\<close>; otherwise, when it has a data attribute, the value of its
  first data attribute followed by \<open>Locator\<close>; otherwise, when it has a class token,
  the word of its first class token followed by \<open>Locator\<close>; otherwise
  \<open>elementLocator\<close>. A selector that has a token of a kind has a first one, so the
  four cases cover every selector.
\<close>

theorem C9_locator_name_priority:
  "(first_at (token_at (CHR ''#'') s) x \<longrightarrow> deriveLocatorName s = x @ ''Locator'')
   \<and> (nowhere (token_at (CHR ''#'') s) \<and> first_at (data_attr_at s) v \<longrightarrow>
        deriveLocatorName s = v @ ''Locator'')
   \<and> (nowhere (token_at (CHR ''#'') s) \<and> nowhere (data_attr_at s)
        \<and> first_at (token_at (CHR ''.'') s) c \<longrightarrow>
        deriveLocatorName s = c @ ''Locator'')
   \<and> (nowhere (token_at (CHR ''#'') s) \<and> nowhere (data_attr_at s)
        \<and> nowhere (token_at (CHR ''.'') s) \<longrightarrow>
        deriveLocatorName s = ''elementLocator'')
   \<and> (\<not> nowhere (token_at (CHR ''#'') s) \<longrightarrow> (\<exists>x. first_at (token_at (CHR ''#'') s) x))
   \<and> (\<not> nowhere (data_attr_at s) \<longrightarrow> (\<exists>v. first_at (data_attr_at s) v))
   \<and> (\<not> nowhere (token_at (CHR ''.'') s) \<longrightarrow> (\<exists>c. first_at (token_at (CHR ''.'') s) c))"
  unfolding first_token_search no_token_search first_data_search no_data_search
  by (simp add: deriveLocatorName_def)

theorem C9_locator_name_priority_witness:
  "deriveLocatorName ''div.card#main[data-test=x]'' = ''mainLocator''
   \<and> deriveLocatorName ''li.item[data-test=\"row\"]'' = ''rowLocator''
   \<and> deriveLocatorName ''button.primary-btn'' = ''primary-btnLocator''
   \<and> deriveLocatorName ''input[type=text]'' = ''elementLocator''
   \<and> (\<exists>x. first_at (token_at (CHR ''#'') ''div.card#main[data-test=x]'') x)
   \<and> (\<exists>v. first_at (data_attr_at ''li.item[data-test=\"row\"]'') v)
   \<and> (\<exists>c. first_at (token_at (CHR ''.'') ''button.primary-btn'') c)"
proof -
  have h1: "first_at (token_at (CHR ''#'') ''div.card#main[data-test=x]'') ''main''"
    unfolding first_token_search by code_simp
  have h2: "nowhere (token_at (CHR ''#'') ''li.item[data-test=\"row\"]'')"
    "first_at (data_attr_at ''li.item[data-test=\"row\"]'') ''row''"
    unfolding first_data_search no_token_search by code_simp+
  have h3: "nowhere (token_at (CHR ''#'') ''button.primary-btn'')"
    "nowhere (data_attr_at ''button.primary-btn'')"
    "first_at (token_at (CHR ''.'') ''button.primary-btn'') ''primary-btn''"
    unfolding first_token_search no_token_search no_data_search by code_simp+
  have h4: "nowhere (token_at (CHR ''#'') ''input[type=text]'')"
    "nowhere (data_attr_at ''input[type=text]'')"
    "nowhere (token_at (CHR ''.'') ''input[type=text]'')"
    unfolding no_token_search no_data_search by code_simp+
  from C9_locator_name_priority [of "''div.card#main[data-test=x]''" "''main''"] h1
  have 1: "deriveLocatorName ''div.card#main[data-test=x]'' = ''mainLocator''" by simp
  from C9_locator_name_priority [of "''li.item[data-test=\"row\"]''" _ "''row''"] h2
  have 2: "deriveLocatorName ''li.item[data-test=\"row\"]'' = ''rowLocator''" by simp
  from C9_locator_name_priority [of "''button.primary-btn''" _ _ "''primary-btn''"] h3
  have 3: "deriveLocatorName ''button.primary-btn'' = ''primary-btnLocator''" by simp
  from C9_locator_name_priority [of "''input[type=text]''"] h4
  have 4: "deriveLocatorName ''input[type=text]'' = ''elementLocator''" by simp
  have n5: "\<not> nowhere (token_at (CHR ''#'') ''div.card#main[data-test=x]'')"
    unfolding no_token_search by code_simp
  have n6: "\<not> nowhere (data_attr_at ''li.item[data-test=\"row\"]'')"
    unfolding no_data_search by code_simp
  have n7: "\<not> nowhere (token_at (CHR ''.'') ''button.primary-btn'')"
    unfolding no_token_search by code_simp
  from C9_locator_name_priority [of "''div.card#main[data-test=x]''"] n5
  have 5: "\<exists>x. first_at (token_at (CHR ''#'') ''div.card#main[data-test=x]'') x" by blast
  from C9_locator_name_priority [of "''li.item[data-test=\"row\"]''"] n6
  have 6: "\<exists>v. first_at (data_attr_at ''li.item[data-test=\"row\"]'') v" by blast
  from C9_locator_name_priority [of "''button.primary-btn''"] n7
  have 7: "\<exists>c. first_at (token_at (CHR ''.'') ''button.primary-btn'') c" by blast
  from 1 2 3 4 5 6 7 show ?thesis by (intro conjI)
qed

section \<open>Validity of the test code\<close>





section \<open>Guards and results of the page-state query tools\<close>

text \<open>
  Claim C5. Each of the two tools checks, in this order, that the page reference exists,
  that the browser is connected and that the page is not closed. When a check fails, the
  later checks and the library call are not made, and the result is a failure whose text
  contains \<open>Page is not available\<close>, \<open>Browser is not connected\<close> or
  \<open>Page is not available or has been closed\<close>.
\<close>

theorem C5_guards_before_library_call:
  assumes tool: "execute = VisibleTextTool_execute \<or> execute = VisibleHtmlTool_execute"
  shows "(ctx_page ctx = None \<longrightarrow>
            isError (fst (execute ctx)) \<and> snd (execute ctx) = [VerifyPage]
            \<and> sublist ''Page is not available'' (response_text (fst (execute ctx))))
       \<and> (ctx_page ctx \<noteq> None
            \<and> (ctx_browser ctx = None \<or> \<not> isConnected (the (ctx_browser ctx))) \<longrightarrow>
            isError (fst (execute ctx)) \<and> snd (execute ctx) = [VerifyPage, VerifyConnected]
            \<and> sublist ''Browser is not connected'' (response_text (fst (execute ctx))))
       \<and> (ctx_page ctx \<noteq> None \<and> ctx_browser ctx \<noteq> None
            \<and> isConnected (the (ctx_browser ctx)) \<and> isClosed (the (ctx_page ctx)) \<longrightarrow>
            isError (fst (execute ctx))
            \<and> snd (execute ctx) = [VerifyPage, VerifyConnected, VerifyNotClosed]
            \<and> sublist ''Page is not available or has been closed''
                 (response_text (fst (execute ctx))))
       \<and> (LibraryCall \<in> set (snd (execute ctx)) \<longrightarrow>
            ctx_page ctx \<noteq> None \<and> ctx_browser ctx \<noteq> None
            \<and> isConnected (the (ctx_browser ctx)) \<and> \<not> isClosed (the (ctx_page ctx)))"
proof -
  have "(ctx_page ctx = None \<longrightarrow>
            isError (fst (visible_execute call label failure ctx))
            \<and> snd (visible_execute call label failure ctx) = [VerifyPage]
            \<and> sublist ''Page is not available''
                 (response_text (fst (visible_execute call label failure ctx))))
       \<and> (ctx_page ctx \<noteq> None
            \<and> (ctx_browser ctx = None \<or> \<not> isConnected (the (ctx_browser ctx))) \<longrightarrow>
            isError (fst (visible_execute call label failure ctx))
            \<and> snd (visible_execute call label failure ctx) = [VerifyPage, VerifyConnected]
            \<and> sublist ''Browser is not connected''
                 (response_text (fst (visible_execute call label failure ctx))))
       \<and> (ctx_page ctx \<noteq> None \<and> ctx_browser ctx \<noteq> None
            \<and> isConnected (the (ctx_browser ctx)) \<and> isClosed (the (ctx_page ctx)) \<longrightarrow>
            isError (fst (visible_execute call label failure ctx))
            \<and> snd (visible_execute call label failure ctx)
                = [VerifyPage, VerifyConnected, VerifyNotClosed]
            \<and> sublist ''Page is not available or has been closed''
                 (response_text (fst (visible_execute call label failure ctx))))
       \<and> (LibraryCall \<in> set (snd (visible_execute call label failure ctx)) \<longrightarrow>
            ctx_page ctx \<noteq> None \<and> ctx_browser ctx \<noteq> None
            \<and> isConnected (the (ctx_browser ctx)) \<and> \<not> isClosed (the (ctx_page ctx)))"
    for call label failure
    by (auto simp: visible_execute_def createErrorResponse_def createSuccessResponse_def
        split: option.splits sum.splits)
  with tool show ?thesis
    unfolding VisibleTextTool_execute_def VisibleHtmlTool_execute_def by blast
qed

theorem C5_guards_before_library_call_witness:
  "fst (VisibleTextTool_execute \<lparr>ctx_page = None, ctx_browser = Some \<lparr>isConnected = True\<rparr>\<rparr>)
     = \<lparr>isError = True, response_text = ''Page is not available''\<rparr>
   \<and> snd (VisibleHtmlTool_execute
          \<lparr>ctx_page = Some \<lparr>isClosed = True, evaluate = Inr ''t'', pageContent = Inr ''h''\<rparr>,
           ctx_browser = Some \<lparr>isConnected = False\<rparr>\<rparr>)
     = [VerifyPage, VerifyConnected]
   \<and> fst (VisibleHtmlTool_execute
          \<lparr>ctx_page = Some \<lparr>isClosed = True, evaluate = Inr ''t'', pageContent = Inr ''h''\<rparr>,
           ctx_browser = Some \<lparr>isConnected = True\<rparr>\<rparr>)
     = \<lparr>isError = True, response_text = ''Page is not available or has been closed''\<rparr>
   \<and> LibraryCall \<in> set (snd (VisibleTextTool_execute
          \<lparr>ctx_page = Some \<lparr>isClosed = False, evaluate = Inr ''t'', pageContent = Inr ''h''\<rparr>,
           ctx_browser = Some \<lparr>isConnected = True\<rparr>\<rparr>))"
proof -
  let ?p = "\<lambda>c. \<lparr>isClosed = c, evaluate = Inr ''t'', pageContent = Inr ''h''\<rparr>"
  let ?c1 = "\<lparr>ctx_page = None, ctx_browser = Some \<lparr>isConnected = True\<rparr>\<rparr>"
  let ?c2 = "\<lparr>ctx_page = Some (?p True), ctx_browser = Some \<lparr>isConnected = False\<rparr>\<rparr>"
  let ?c3 = "\<lparr>ctx_page = Some (?p True), ctx_browser = Some \<lparr>isConnected = True\<rparr>\<rparr>"
  let ?c4 = "\<lparr>ctx_page = Some (?p False), ctx_browser = Some \<lparr>isConnected = True\<rparr>\<rparr>"
  have 1: "isError (fst (VisibleTextTool_execute ?c1))
      \<and> sublist ''Page is not available'' (response_text (fst (VisibleTextTool_execute ?c1)))"
    using C5_guards_before_library_call [of VisibleTextTool_execute ?c1] by simp
  have 2: "snd (VisibleHtmlTool_execute ?c2) = [VerifyPage, VerifyConnected]"
    using C5_guards_before_library_call [of VisibleHtmlTool_execute ?c2] by simp
  have 3: "isError (fst (VisibleHtmlTool_execute ?c3))
      \<and> sublist ''Page is not available or has been closed''
           (response_text (fst (VisibleHtmlTool_execute ?c3)))"
    using C5_guards_before_library_call [of VisibleHtmlTool_execute ?c3] by simp
  have 4: "LibraryCall \<in> set (snd (VisibleTextTool_execute ?c4))"
    by (simp add: VisibleTextTool_execute_def visible_execute_def)
  have 5: "ctx_page ?c4 \<noteq> None \<and> ctx_browser ?c4 \<noteq> None
      \<and> isConnected (the (ctx_browser ?c4)) \<and> \<not> isClosed (the (ctx_page ?c4))"
    using C5_guards_before_library_call [of VisibleTextTool_execute ?c4] 4 by blast
  have t1: "fst (VisibleTextTool_execute ?c1)
      = \<lparr>isError = True, response_text = ''Page is not available''\<rparr>"
    using 1 by (simp add: VisibleTextTool_execute_def visible_execute_def createErrorResponse_def)
  have t3: "fst (VisibleHtmlTool_execute ?c3)
      = \<lparr>isError = True, response_text = ''Page is not available or has been closed''\<rparr>"
    using 3 by (simp add: VisibleHtmlTool_execute_def visible_execute_def createErrorResponse_def)
  from t1 2 t3 4 5 show ?thesis by simp
qed

text \<open>
  Claim C6. When the three checks pass and the library call returns the content \<open>c\<close>,
  the result is not a failure and its text contains \<open>c\<close>; when the library call throws
  with the message \<open>m\<close>, the result is a failure whose text contains
  \<open>Failed to get visible text content\<close> (for the HTML tool
  \<open>Failed to get visible HTML content\<close>) and \<open>m\<close>.
\<close>

theorem C6_library_result_wrapped:
  assumes page: "ctx_page ctx = Some page" and browser: "ctx_browser ctx = Some b"
    and ok: "isConnected b" "\<not> isClosed page"
  shows "(evaluate page = Inr c \<longrightarrow>
            \<not> isError (fst (VisibleTextTool_execute ctx))
            \<and> sublist c (response_text (fst (VisibleTextTool_execute ctx))))
       \<and> (pageContent page = Inr c \<longrightarrow>
            \<not> isError (fst (VisibleHtmlTool_execute ctx))
            \<and> sublist c (response_text (fst (VisibleHtmlTool_execute ctx))))
       \<and> (evaluate page = Inl m \<longrightarrow>
            isError (fst (VisibleTextTool_execute ctx))
            \<and> sublist ''Failed to get visible text content''
                 (response_text (fst (VisibleTextTool_execute ctx)))
            \<and> sublist m (response_text (fst (VisibleTextTool_execute ctx))))
       \<and> (pageContent page = Inl m \<longrightarrow>
            isError (fst (VisibleHtmlTool_execute ctx))
            \<and> sublist ''Failed to get visible HTML content''
                 (response_text (fst (VisibleHtmlTool_execute ctx)))
            \<and> sublist m (response_text (fst (VisibleHtmlTool_execute ctx))))"
proof -
  have ok_text: "fst (visible_execute call label failure ctx)
      = createSuccessResponse (label @ '':\<newline>'' @ c)"
    if "call page = Inr c" for call label failure
    using that page browser ok by (simp add: visible_execute_def)
  have fail_text: "fst (visible_execute call label failure ctx)
      = createErrorResponse (failure @ '': '' @ m)"
    if "call page = Inl m" for call label failure
    using that page browser ok by (simp add: visible_execute_def)
  have in_ok: "sublist c (label @ '':\<newline>'' @ c)" for label
    by (rule sublist_mid [where ps = "label @ '':\<newline>''" and ss = "[]"]) simp
  have in_fail: "sublist failure (failure @ '': '' @ m)" "sublist m (failure @ '': '' @ m)"
    for failure
    by (rule sublist_mid [where ps = "[]" and ss = "'': '' @ m"], simp)
       (rule sublist_mid [where ps = "failure @ '': ''" and ss = "[]"], simp)
  have gen: "(call page = Inr c \<longrightarrow>
                \<not> isError (fst (visible_execute call label failure ctx))
                \<and> sublist c (response_text (fst (visible_execute call label failure ctx))))
           \<and> (call page = Inl m \<longrightarrow>
                isError (fst (visible_execute call label failure ctx))
                \<and> sublist failure (response_text (fst (visible_execute call label failure ctx)))
                \<and> sublist m (response_text (fst (visible_execute call label failure ctx))))"
    for call label failure
    using in_ok [of label] in_fail [of failure]
    by (simp add: ok_text fail_text createSuccessResponse_def createErrorResponse_def)
  show ?thesis
    unfolding VisibleTextTool_execute_def VisibleHtmlTool_execute_def
    using gen [of evaluate "''Visible text content''" "''Failed to get visible text content''"]
      gen [of pageContent "''HTML content''" "''Failed to get visible HTML content''"]
    by blast
qed

theorem C6_library_result_wrapped_witness:
  "fst (VisibleTextTool_execute
          \<lparr>ctx_page = Some \<lparr>isClosed = False, evaluate = Inr ''Sample visible text content'',
                            pageContent = Inl ''Content retrieval failed''\<rparr>,
           ctx_browser = Some \<lparr>isConnected = True\<rparr>\<rparr>)
     = \<lparr>isError = False,
        response_text = ''Visible text content:\<newline>Sample visible text content''\<rparr>
   \<and> fst (VisibleHtmlTool_execute
          \<lparr>ctx_page = Some \<lparr>isClosed = False, evaluate = Inr ''Sample visible text content'',
                            pageContent = Inl ''Content retrieval failed''\<rparr>,
           ctx_browser = Some \<lparr>isConnected = True\<rparr>\<rparr>)
     = \<lparr>isError = True,
        response_text = ''Failed to get visible HTML content: Content retrieval failed''\<rparr>
   \<and> isError (fst (VisibleTextTool_execute
          \<lparr>ctx_page = Some \<lparr>isClosed = False, evaluate = Inl ''Evaluation failed'',
                            pageContent = Inr ''<html></html>''\<rparr>,
           ctx_browser = Some \<lparr>isConnected = True\<rparr>\<rparr>))
   \<and> sublist ''<html></html>'' (response_text (fst (VisibleHtmlTool_execute
          \<lparr>ctx_page = Some \<lparr>isClosed = False, evaluate = Inl ''Evaluation failed'',
                            pageContent = Inr ''<html></html>''\<rparr>,
           ctx_browser = Some \<lparr>isConnected = True\<rparr>\<rparr>)))"
proof -
  let ?p1 = "\<lparr>isClosed = False, evaluate = Inr ''Sample visible text content'',
              pageContent = Inl ''Content retrieval failed''\<rparr>"
  let ?p2 = "\<lparr>isClosed = False, evaluate = Inl ''Evaluation failed'',
              pageContent = Inr ''<html></html>''\<rparr>"
  let ?b = "\<lparr>isConnected = True\<rparr>"
  let ?c1 = "\<lparr>ctx_page = Some ?p1, ctx_browser = Some ?b\<rparr>"
  let ?c2 = "\<lparr>ctx_page = Some ?p2, ctx_browser = Some ?b\<rparr>"
  note a = C6_library_result_wrapped [of ?c1 ?p1 ?b "''Sample visible text content''"
      "''Content retrieval failed''"]
  note b = C6_library_result_wrapped [of ?c2 ?p2 ?b "''<html></html>''" "''Evaluation failed''"]
  have 1: "\<not> isError (fst (VisibleTextTool_execute ?c1))"
    and 2: "isError (fst (VisibleHtmlTool_execute ?c1))"
    using a by simp_all
  have 3: "isError (fst (VisibleTextTool_execute ?c2))"
    and 4: "sublist ''<html></html>'' (response_text (fst (VisibleHtmlTool_execute ?c2)))"
    using b by simp_all
  have t1: "fst (VisibleTextTool_execute ?c1)
     = \<lparr>isError = False,
        response_text = ''Visible text content:\<newline>Sample visible text content''\<rparr>"
    using 1 by (simp add: VisibleTextTool_execute_def visible_execute_def createSuccessResponse_def)
  have t2: "fst (VisibleHtmlTool_execute ?c1)
     = \<lparr>isError = True,
        response_text = ''Failed to get visible HTML content: Content retrieval failed''\<rparr>"
    using 2 by (simp add: VisibleHtmlTool_execute_def visible_execute_def createErrorResponse_def)
  from t1 t2 3 4 show ?thesis by (intro conjI)
qed


end
